theory Spec2Isabelle
  imports Complex_Main "HOL-Library.Multiset" "HOL-Library.Sublist"
begin

section \<open>JSAF Auditor: the result-completeness and validation engine of app.py\<close>

text \<open>
  The audited document is the Python value that \<open>json.load\<close> returns: a dict of
  named collections, each a list of dicts. The embedding types the dicts by the
  fields that the engine reads. A field read with \<open>d.get(k)\<close> is an \<open>option\<close>
  (\<open>None\<close> when the key is absent), a field read with \<open>d.get(k, default)\<close> is
  the same option followed by the default. A field that is present holds a
  value of its type: identifiers and names are strings, reference lists are
  lists of strings, component sequences are lists of finite JSON numbers.

  The numbers are taken as reals. The code only compares them
  (\<open>abs(v) > 1e-6\<close>, \<open>max\<close>), which floating point does exactly; the
  tolerance literal \<open>1e-6\<close> is the real number \<open>1 / 1000000\<close>. The
  ratio \<open>nz / total\<close> is a quotient of two small integers and is compared
  with 0 and 1 only.
\<close>

subsection \<open>Result records and the non-zero ratio\<close>

record result =
  Member :: "string option"
  Load :: "string option"
  series :: "string \<rightharpoonup> real list"

definition COMPS_1D :: "string list" where
  "COMPS_1D = [''aN'', ''aVy'', ''aVz'', ''aMx'', ''aMy'', ''aMz'']"

definition COMPS_MESH :: "string list" where
  "COMPS_MESH = [''amx'', ''amy'', ''amxy'', ''avx'', ''avy'', ''anx'', ''any'', ''anxy'']"

text \<open>\<open>r.get(c, [])\<close>\<close>

definition get_series :: "result \<Rightarrow> string \<Rightarrow> real list" where
  "get_series r c = (case series r c of None \<Rightarrow> [] | Some vs \<Rightarrow> vs)"

text \<open>\<open>any(abs(v) > 1e-6 for v in r.get(c, []))\<close>\<close>

definition comp_nz :: "result \<Rightarrow> string \<Rightarrow> bool" where
  "comp_nz r c = list_ex (\<lambda>v. \<bar>v\<bar> > 1 / 1000000) (get_series r c)"

text \<open>\<open>sum(1 for c in COMPS if any(...))\<close>, for either component list.\<close>

definition nz_count :: "string list \<Rightarrow> result \<Rightarrow> nat" where
  "nz_count cs r = sum_list (map (\<lambda>c. 1) (filter (comp_nz r) cs))"

definition nz_ratio_1d :: "result \<Rightarrow> real" where
  "nz_ratio_1d r =
     (let total = length COMPS_1D; nz = nz_count COMPS_1D r
      in real nz / real total)"

definition nz_ratio_mesh :: "result \<Rightarrow> real" where
  "nz_ratio_mesh r =
     (let total = length COMPS_MESH; nz = nz_count COMPS_MESH r
      in real nz / real total)"

text \<open>
  The detail view names the three classes of a ratio:
  \<open>if ratio == 1.0: Completo; elif ratio > 0: Parcial; else: Vacio\<close>.
\<close>

datatype completeness = Completo | Parcial | Vacio

definition status_of :: "real \<Rightarrow> completeness" where
  "status_of ratio = (if ratio = 1 then Completo else if ratio > 0 then Parcial else Vacio)"

text \<open>
  The session counts of a result collection, for a ratio function:
  \<open>sum(1 for r in results if ratio(r) == 1.0)\<close>,
  \<open>sum(1 for r in results if 0 < ratio(r) < 1.0)\<close>,
  \<open>sum(1 for r in results if ratio(r) == 0)\<close>.
\<close>

definition count_full :: "(result \<Rightarrow> real) \<Rightarrow> result list \<Rightarrow> nat" where
  "count_full ratio results = sum_list (map (\<lambda>r. 1) (filter (\<lambda>r. ratio r = 1) results))"

definition count_partial :: "(result \<Rightarrow> real) \<Rightarrow> result list \<Rightarrow> nat" where
  "count_partial ratio results =
     sum_list (map (\<lambda>r. 1) (filter (\<lambda>r. 0 < ratio r \<and> ratio r < 1) results))"

definition count_empty :: "(result \<Rightarrow> real) \<Rightarrow> result list \<Rightarrow> nat" where
  "count_empty ratio results = sum_list (map (\<lambda>r. 1) (filter (\<lambda>r. ratio r = 0) results))"

subsection \<open>The classifier loop of render_results_1d and render_mesh_results\<close>

text \<open>
  Both functions run the same loop over their collection; they differ in the
  component list (\<open>COMPS_1D\<close>, \<open>COMPS_MESH\<close>) and in the ratio function
  (\<open>nz_ratio_1d\<close>, \<open>nz_ratio_mesh\<close>), which are parameters here.
  A subscript on a dict raises \<open>KeyError\<close> when the key is missing; the model
  returns it as a value.
\<close>

datatype py_error = KeyError

record owner_info =
  nonzero :: nat
  zero :: nat
  max_vals :: "string \<rightharpoonup> real"

type_synonym index = "(string \<times> string) \<rightharpoonup> result"
type_synonym summary = "string \<rightharpoonup> owner_info"

text \<open>\<open>r.get("Member", "")\<close> and \<open>r.get("Load", "")\<close>\<close>

definition owner_of :: "result \<Rightarrow> string" where
  "owner_of r = (case Member r of None \<Rightarrow> [] | Some m \<Rightarrow> m)"

definition load_of :: "result \<Rightarrow> string" where
  "load_of r = (case Load r of None \<Rightarrow> [] | Some l \<Rightarrow> l)"

text \<open>
  The body of \<open>for c in COMPS\<close>:
  \<open>vals = [abs(v) for v in r.get(c, [])]\<close>;
  \<open>if vals: max_vals[c] = max(max_vals[c], max(vals))\<close>.
  An empty list is falsy; \<open>max\<close> of a non-empty list folds the binary maximum.
\<close>

definition track_max :: "result \<Rightarrow> string \<Rightarrow> (string \<rightharpoonup> real) \<Rightarrow> py_error + (string \<rightharpoonup> real)" where
  "track_max r c mv =
     (case map abs (get_series r c) of
        [] \<Rightarrow> Inr mv
      | v # vs \<Rightarrow>
          (case mv c of
             None \<Rightarrow> Inl KeyError
           | Some m \<Rightarrow> Inr (mv(c \<mapsto> max m (fold max vs v)))))"

fun track_all :: "result \<Rightarrow> string list \<Rightarrow> (string \<rightharpoonup> real) \<Rightarrow> py_error + (string \<rightharpoonup> real)" where
  "track_all r [] mv = Inr mv"
| "track_all r (c # cs) mv =
     (case track_max r c mv of Inl e \<Rightarrow> Inl e | Inr mv' \<Rightarrow> track_all r cs mv')"

text \<open>\<open>{"nonzero": 0, "zero": 0, "max_vals": {c: 0 for c in COMPS}}\<close>\<close>

definition fresh_info :: "string list \<Rightarrow> owner_info" where
  "fresh_info cs = \<lparr>nonzero = 0, zero = 0, max_vals = map_of (map (\<lambda>c. (c, 0)) cs)\<rparr>"

text \<open>The body of \<open>for r in results\<close>, on the pair (result_index, summary).\<close>

definition record_result ::
  "string list \<Rightarrow> (result \<Rightarrow> real) \<Rightarrow> result \<Rightarrow> index \<times> summary \<Rightarrow> py_error + index \<times> summary" where
  "record_result cs ratio r st =
     (let bid = owner_of r;
          lid = load_of r;
          idx = (fst st)((bid, lid) \<mapsto> r);
          summ = (if snd st bid = None then (snd st)(bid \<mapsto> fresh_info cs) else snd st)
      in case summ bid of
           None \<Rightarrow> Inl KeyError
         | Some info \<Rightarrow>
             (let counted = (if ratio r > 0 then info\<lparr>nonzero := nonzero info + 1\<rparr>
                             else info\<lparr>zero := zero info + 1\<rparr>)
              in case track_all r cs (max_vals counted) of
                   Inl e \<Rightarrow> Inl e
                 | Inr mv \<Rightarrow> Inr (idx, summ(bid \<mapsto> counted\<lparr>max_vals := mv\<rparr>))))"

fun classify_loop ::
  "string list \<Rightarrow> (result \<Rightarrow> real) \<Rightarrow> result list \<Rightarrow> index \<times> summary \<Rightarrow> py_error + index \<times> summary" where
  "classify_loop cs ratio [] st = Inr st"
| "classify_loop cs ratio (r # rs) st =
     (case record_result cs ratio r st of
        Inl e \<Rightarrow> Inl e
      | Inr st' \<Rightarrow> classify_loop cs ratio rs st')"

record report =
  result_index :: index
  owner_summary :: summary
  n_total :: nat
  n_full :: nat
  n_partial :: nat
  n_empty :: nat

text \<open>
  Lines 365 to 386 (1D) and 468 to 489 (mesh): the loop from two empty dicts,
  then the four session counts.
\<close>

definition classify :: "string list \<Rightarrow> (result \<Rightarrow> real) \<Rightarrow> result list \<Rightarrow> py_error + report" where
  "classify cs ratio results =
     (case classify_loop cs ratio results (Map.empty, Map.empty) of
        Inl e \<Rightarrow> Inl e
      | Inr st \<Rightarrow>
          Inr \<lparr>result_index = fst st, owner_summary = snd st,
               n_total = length results,
               n_full = count_full ratio results,
               n_partial = count_partial ratio results,
               n_empty = count_empty ratio results\<rparr>)"

subsection \<open>The document\<close>

record material =
  mat_Id :: "string option"

record cross_section =
  cs_Id :: "string option"
  cs_Name :: "string option"
  cs_Materials :: "string list option"

record node =
  node_Id :: "string option"

record bar =
  bar_Id :: "string option"
  bar_Name :: "string option"
  bar_CrossSection :: "string option"
  bar_Nodes :: "string list option"

record surface =
  surf_Id :: "string option"
  surf_Name :: "string option"
  surf_Nodes :: "string list option"
  surf_Materials :: "string list option"

record support =
  sup_Name :: "string option"
  sup_Node :: "string option"

record surface_opening =
  op_Name :: "string option"
  op_Surface :: "string option"

text \<open>
  A collection is \<open>None\<close> when its key is absent from the document. The
  remaining top-level keys whose value is a list (load cases, combinations,
  actions, macros, any other key) matter to the engine only through their
  length: \<open>OtherLists\<close> keeps their names and lengths. Keys bound to a value
  that is not a list are read by no check.
\<close>

record document =
  Materials :: "material list option"
  CrossSections :: "cross_section list option"
  PointConnections :: "node list option"
  CurveMembers :: "bar list option"
  SurfaceMembers :: "surface list option"
  PointSupports :: "support list option"
  SurfaceMemberOpenings :: "surface_opening list option"
  Results1D :: "result list option"
  MeshResults :: "result list option"
  OtherLists :: "(string \<times> nat) list"

text \<open>\<open>data.get(key, [])\<close> and \<open>item.get(key, [])\<close>\<close>

definition coll :: "'a list option \<Rightarrow> 'a list" where
  "coll c = (case c of None \<Rightarrow> [] | Some xs \<Rightarrow> xs)"

text \<open>\<open>item.get(key, "")\<close>\<close>

definition str_or_empty :: "string option \<Rightarrow> string" where
  "str_or_empty s = (case s of None \<Rightarrow> [] | Some x \<Rightarrow> x)"

text \<open>
  \<open>render_results_1d\<close> and \<open>render_mesh_results\<close> up to the session counts:
  \<open>if not results: return st.info(...)\<close> leaves before anything is computed
  (\<open>Inr None\<close>).
\<close>

definition render_results_1d :: "document \<Rightarrow> py_error + report option" where
  "render_results_1d data =
     (let results = coll (Results1D data)
      in if results = [] then Inr None
         else case classify COMPS_1D nz_ratio_1d results of
                Inl e \<Rightarrow> Inl e | Inr rep \<Rightarrow> Inr (Some rep))"

definition render_mesh_results :: "document \<Rightarrow> py_error + report option" where
  "render_mesh_results data =
     (let results = coll (MeshResults data)
      in if results = [] then Inr None
         else case classify COMPS_MESH nz_ratio_mesh results of
                Inl e \<Rightarrow> Inl e | Inr rep \<Rightarrow> Inr (Some rep))"

subsection \<open>render_validation\<close>

text \<open>
  Every message is an f-string; a constructor stands for the template and
  holds the interpolated values in order (the templates are shown here
  without their accents and with \<open>->\<close> for the arrow).
  \<^item> \<open>SectionMaterial n\<close>: \<open>Seccion '{cs.get('Name')}' -> material inexistente\<close>
  \<^item> \<open>BarSection n\<close>: \<open>Barra '{b.get('Name')}' -> seccion inexistente\<close>
  \<^item> \<open>BarNode n nid\<close>: \<open>Barra '{b.get('Name')}' -> nodo {nid} inexistente\<close>
  \<^item> \<open>SurfaceNode n nid\<close>: \<open>Superficie '{s.get('Name')}' -> nodo {nid} inexistente\<close>
  \<^item> \<open>SupportNode n\<close>: \<open>Apoyo '{sup.get('Name')}' -> nodo inexistente\<close>
  \<^item> \<open>OpeningSurface n\<close>: \<open>Abertura '{o.get('Name')}' -> superficie inexistente\<close>
\<close>

datatype issue =
    SectionMaterial "string option"
  | BarSection "string option"
  | BarNode "string option" string
  | SurfaceNode "string option" string
  | SupportNode "string option"
  | OpeningSurface "string option"

text \<open>
  \<^item> \<open>Orphans1D n\<close>: \<open>Results1D: {len(r1d_o)} barras huerfanas\<close>
  \<^item> \<open>OrphansMesh n\<close>: \<open>MeshResults: {len(mr_o)} paneles huerfanos\<close>
  \<^item> \<open>Empty1D z n\<close>: \<open>Results1D: {z1}/{len(data.get('Results1D',[]))} vacios\<close>
  \<^item> \<open>EmptyMesh z n\<close>: \<open>MeshResults: {zm}/{len(data.get('MeshResults',[]))} vacios\<close>
  \<^item> \<open>EmptyEntities ks\<close>: \<open>Entidades vacias: {', '.join(empty)}\<close>
\<close>

datatype warning =
    Orphans1D nat
  | OrphansMesh nat
  | Empty1D nat nat
  | EmptyMesh nat nat
  | EmptyEntities "string list"

text \<open>
  The text of an issue. The accented letter and the arrow of the source are
  written as their UTF-8 bytes; an absent name is formatted as \<open>None\<close>.
\<close>

definition arrow :: string where
  "arrow = [CHR 0xE2, CHR 0x86, CHR 0x92]"

definition o_acute :: string where
  "o_acute = [CHR 0xC3, CHR 0xB3]"

definition fmt :: "string option \<Rightarrow> string" where
  "fmt n = (case n of None \<Rightarrow> ''None'' | Some s \<Rightarrow> s)"

definition quoted :: "string option \<Rightarrow> string" where
  "quoted n = [CHR 0x27] @ fmt n @ [CHR 0x27]"

fun issue_text :: "issue \<Rightarrow> string" where
  "issue_text (SectionMaterial n) =
     ''Secci'' @ o_acute @ ''n '' @ quoted n @ '' '' @ arrow @ '' material inexistente''"
| "issue_text (BarSection n) =
     ''Barra '' @ quoted n @ '' '' @ arrow @ '' secci'' @ o_acute @ ''n inexistente''"
| "issue_text (BarNode n nid) =
     ''Barra '' @ quoted n @ '' '' @ arrow @ '' nodo '' @ nid @ '' inexistente''"
| "issue_text (SurfaceNode n nid) =
     ''Superficie '' @ quoted n @ '' '' @ arrow @ '' nodo '' @ nid @ '' inexistente''"
| "issue_text (SupportNode n) =
     ''Apoyo '' @ quoted n @ '' '' @ arrow @ '' nodo inexistente''"
| "issue_text (OpeningSurface n) =
     ''Abertura '' @ quoted n @ '' '' @ arrow @ '' superficie inexistente''"

text \<open>
  \<open>set(x.get("Id") for x in data.get(key, []))\<close>. The source builds six such
  sets; \<open>lc_ids\<close> is never read afterwards, so the load cases stay among the
  other lists of the document.
\<close>

definition ids :: "('a \<Rightarrow> string option) \<Rightarrow> 'a list option \<Rightarrow> string option set" where
  "ids get_id c = set (map get_id (coll c))"

text \<open>
  The bodies of the five loops that append to \<open>issues\<close>. In
  \<open>b.get("CrossSection","") and b["CrossSection"] not in cs_ids\<close> the subscript
  is evaluated only when the field is a non-empty string, where it returns
  that string; the same holds for \<open>sup["Node"]\<close>.
\<close>

definition cs_issues :: "string option set \<Rightarrow> cross_section \<Rightarrow> issue list" where
  "cs_issues mat_ids cs =
     concat (map (\<lambda>mid. if Some mid \<notin> mat_ids then [SectionMaterial (cs_Name cs)] else [])
                 (coll (cs_Materials cs)))"

definition bar_section_issue :: "string option set \<Rightarrow> bar \<Rightarrow> issue list" where
  "bar_section_issue cs_ids b =
     (let ref = str_or_empty (bar_CrossSection b)
      in if ref \<noteq> [] \<and> Some ref \<notin> cs_ids then [BarSection (bar_Name b)] else [])"

definition bar_node_issues :: "string option set \<Rightarrow> bar \<Rightarrow> issue list" where
  "bar_node_issues node_ids b =
     concat (map (\<lambda>nid. if Some nid \<notin> node_ids then [BarNode (bar_Name b) nid] else [])
                 (coll (bar_Nodes b)))"

definition bar_issues :: "string option set \<Rightarrow> string option set \<Rightarrow> bar \<Rightarrow> issue list" where
  "bar_issues cs_ids node_ids b = bar_section_issue cs_ids b @ bar_node_issues node_ids b"

definition surf_issues :: "string option set \<Rightarrow> surface \<Rightarrow> issue list" where
  "surf_issues node_ids s =
     concat (map (\<lambda>nid. if Some nid \<notin> node_ids then [SurfaceNode (surf_Name s) nid] else [])
                 (coll (surf_Nodes s)))"

definition sup_issues :: "string option set \<Rightarrow> support \<Rightarrow> issue list" where
  "sup_issues node_ids sp =
     (let ref = str_or_empty (sup_Node sp)
      in if ref \<noteq> [] \<and> Some ref \<notin> node_ids then [SupportNode (sup_Name sp)] else [])"

definition op_issues :: "string option set \<Rightarrow> surface_opening \<Rightarrow> issue list" where
  "op_issues surf_ids opn =
     (if Some (str_or_empty (op_Surface opn)) \<notin> surf_ids
      then [OpeningSurface (op_Name opn)] else [])"

definition issues_of :: "document \<Rightarrow> issue list" where
  "issues_of data =
     (let mat_ids = ids mat_Id (Materials data);
          cs_ids = ids cs_Id (CrossSections data);
          node_ids = ids node_Id (PointConnections data);
          surf_ids = ids surf_Id (SurfaceMembers data)
      in concat (map (cs_issues mat_ids) (coll (CrossSections data)))
         @ concat (map (bar_issues cs_ids node_ids) (coll (CurveMembers data)))
         @ concat (map (surf_issues node_ids) (coll (SurfaceMembers data)))
         @ concat (map (sup_issues node_ids) (coll (PointSupports data)))
         @ concat (map (op_issues surf_ids) (coll (SurfaceMemberOpenings data))))"

text \<open>
  \<open>set(r.get("Member") for r in data.get("Results1D",[])) - bar_ids\<close> and its
  mesh twin. Here the owner is read without a default.
\<close>

definition r1d_o :: "document \<Rightarrow> string option set" where
  "r1d_o data = set (map Member (coll (Results1D data))) - ids bar_Id (CurveMembers data)"

definition mr_o :: "document \<Rightarrow> string option set" where
  "mr_o data = set (map Member (coll (MeshResults data))) - ids surf_Id (SurfaceMembers data)"

text \<open>
  \<open>data.items()\<close> restricted to the list values, as (key, length) pairs, and
  \<open>[k for k, v in data.items() if isinstance(v, list) and len(v) == 0]\<close>.
  The record has no key order: the known collections come in the order of
  the record, then the other lists.
\<close>

definition present :: "string \<Rightarrow> 'a list option \<Rightarrow> (string \<times> nat) list" where
  "present k c = (case c of None \<Rightarrow> [] | Some xs \<Rightarrow> [(k, length xs)])"

definition list_items :: "document \<Rightarrow> (string \<times> nat) list" where
  "list_items data =
     present ''Materials'' (Materials data)
     @ present ''CrossSections'' (CrossSections data)
     @ present ''PointConnections'' (PointConnections data)
     @ present ''CurveMembers'' (CurveMembers data)
     @ present ''SurfaceMembers'' (SurfaceMembers data)
     @ present ''PointSupports'' (PointSupports data)
     @ present ''SurfaceMemberOpenings'' (SurfaceMemberOpenings data)
     @ present ''Results1D'' (Results1D data)
     @ present ''MeshResults'' (MeshResults data)
     @ OtherLists data"

definition empty_keys :: "document \<Rightarrow> string list" where
  "empty_keys data = map fst (filter (\<lambda>kv. snd kv = 0) (list_items data))"

definition warns_of :: "document \<Rightarrow> warning list" where
  "warns_of data =
     (let z1 = count_empty nz_ratio_1d (coll (Results1D data));
          zm = count_empty nz_ratio_mesh (coll (MeshResults data));
          empty = empty_keys data
      in (if r1d_o data \<noteq> {} then [Orphans1D (card (r1d_o data))] else [])
         @ (if mr_o data \<noteq> {} then [OrphansMesh (card (mr_o data))] else [])
         @ (if z1 \<noteq> 0 then [Empty1D z1 (length (coll (Results1D data)))] else [])
         @ (if zm \<noteq> 0 then [EmptyMesh zm (length (coll (MeshResults data)))] else [])
         @ (if empty \<noteq> [] then [EmptyEntities empty] else []))"

text \<open>The two lists of \<open>render_validation\<close>: (issues, warns).\<close>

definition render_validation :: "document \<Rightarrow> issue list \<times> warning list" where
  "render_validation data = (issues_of data, warns_of data)"

text \<open>\<open>if not issues and not warns\<close>: the report is clean.\<close>

definition clean :: "issue list \<times> warning list \<Rightarrow> bool" where
  "clean rep = (fst rep = [] \<and> snd rep = [])"

subsection \<open>Closed forms of the loop's results\<close>

text \<open>
  What the loop leaves in its two dicts, written without the loop: the index
  keeps, for each (owner, load) key, the last record with that key; the
  summary counts an owner's records by the sign of their ratio and takes, per
  component, the largest absolute value over the owner's records, from 0.
\<close>

definition key_of :: "result \<Rightarrow> string \<times> string" where
  "key_of r = (owner_of r, load_of r)"

definition index_of_list :: "result list \<Rightarrow> index" where
  "index_of_list rs = map_of (rev (map (\<lambda>r. (key_of r, r)) rs))"

definition peaks :: "result list \<Rightarrow> string \<Rightarrow> string \<Rightarrow> real set" where
  "peaks rs bid c = (\<Union>r \<in> {r \<in> set rs. owner_of r = bid}. abs ` set (get_series r c))"

definition summary_of :: "string list \<Rightarrow> (result \<Rightarrow> real) \<Rightarrow> result list \<Rightarrow> summary" where
  "summary_of cs ratio rs =
     (\<lambda>bid. if bid \<in> owner_of ` set rs
            then Some \<lparr>nonzero = length (filter (\<lambda>r. owner_of r = bid \<and> ratio r > 0) rs),
                       zero = length (filter (\<lambda>r. owner_of r = bid \<and> \<not> ratio r > 0) rs),
                       max_vals = (\<lambda>c. if c \<in> set cs then Some (Max (insert 0 (peaks rs bid c)))
                                        else None)\<rparr>
            else None)"

subsection \<open>The Reference Validator as the specification words it\<close>

text \<open>
  The six checks of the Reference Validator, written from the specification
  (section 4.2) rather than from the loops: the unresolved references of a
  document, in document order, each with the kind of reference, the Name of
  the source entity and the dangling id.
  \<^item> CrossSection.Materials[] against the Material ids;
  \<^item> Bar.CrossSection against the CrossSection ids, only if the field is a
    non-empty string;
  \<^item> Bar.Nodes[] and Surface.Nodes[] against the Node ids, every element;
  \<^item> Support.Node against the Node ids, if non-empty;
  \<^item> SurfaceOpening.Surface against the Surface ids (an absent field is
    read as the empty string).
\<close>

datatype ref_kind =
    MaterialOfSection | SectionOfBar | NodeOfBar | NodeOfSurface | NodeOfSupport
  | SurfaceOfOpening

type_synonym dangling = "ref_kind \<times> string option \<times> string"

definition unresolved_of ::
  "ref_kind \<Rightarrow> string option set \<Rightarrow> string option \<Rightarrow> string list \<Rightarrow> dangling list" where
  "unresolved_of k target name refs =
     map (\<lambda>i. (k, name, i)) (filter (\<lambda>i. Some i \<notin> target) refs)"

definition nonempty_ref :: "string option \<Rightarrow> string list" where
  "nonempty_ref f = (case f of None \<Rightarrow> [] | Some s \<Rightarrow> if s = [] then [] else [s])"

definition unresolved_refs :: "document \<Rightarrow> dangling list" where
  "unresolved_refs d =
     concat (map (\<lambda>cs. unresolved_of MaterialOfSection (ids mat_Id (Materials d)) (cs_Name cs)
                          (coll (cs_Materials cs)))
                 (coll (CrossSections d)))
     @ concat (map (\<lambda>b. unresolved_of SectionOfBar (ids cs_Id (CrossSections d)) (bar_Name b)
                            (nonempty_ref (bar_CrossSection b))
                          @ unresolved_of NodeOfBar (ids node_Id (PointConnections d)) (bar_Name b)
                              (coll (bar_Nodes b)))
                   (coll (CurveMembers d)))
     @ concat (map (\<lambda>s. unresolved_of NodeOfSurface (ids node_Id (PointConnections d))
                            (surf_Name s) (coll (surf_Nodes s)))
                   (coll (SurfaceMembers d)))
     @ concat (map (\<lambda>sp. unresolved_of NodeOfSupport (ids node_Id (PointConnections d))
                             (sup_Name sp) (nonempty_ref (sup_Node sp)))
                   (coll (PointSupports d)))
     @ concat (map (\<lambda>opn. unresolved_of SurfaceOfOpening (ids surf_Id (SurfaceMembers d))
                              (op_Name opn) [str_or_empty (op_Surface opn)])
                   (coll (SurfaceMemberOpenings d)))"

text \<open>What the source's message keeps of an unresolved reference.\<close>

fun issue_for :: "dangling \<Rightarrow> issue" where
  "issue_for (MaterialOfSection, n, i) = SectionMaterial n"
| "issue_for (SectionOfBar, n, i) = BarSection n"
| "issue_for (NodeOfBar, n, i) = BarNode n i"
| "issue_for (NodeOfSurface, n, i) = SurfaceNode n i"
| "issue_for (NodeOfSupport, n, i) = SupportNode n"
| "issue_for (SurfaceOfOpening, n, i) = OpeningSurface n"

fun is_bar_section :: "issue \<Rightarrow> bool" where
  "is_bar_section (BarSection n) = True"
| "is_bar_section _ = False"

text \<open>
  The data model of the specification (section 3) lists further reference
  fields that no check of \<open>render_validation\<close> reads; among those of the
  document record, Surface.Materials[] against the Material ids. A dangling
  reference in the glossary's sense (a reference field pointing to an id
  absent from its target collection) is one of the six kinds above or one of
  these.
\<close>

definition unchecked_refs :: "document \<Rightarrow> (string option \<times> string) list" where
  "unchecked_refs d =
     concat (map (\<lambda>s. map (\<lambda>mid. (surf_Name s, mid))
                          (filter (\<lambda>mid. Some mid \<notin> ids mat_Id (Materials d))
                                  (coll (surf_Materials s))))
                 (coll (SurfaceMembers d)))"

definition no_dangling_references :: "document \<Rightarrow> bool" where
  "no_dangling_references d = (unresolved_refs d = [] \<and> unchecked_refs d = [])"

subsection \<open>Example documents\<close>

definition doc0 :: document where
  "doc0 = \<lparr>Materials = None, CrossSections = None, PointConnections = None,
           CurveMembers = None, SurfaceMembers = None, PointSupports = None,
           SurfaceMemberOpenings = None, Results1D = None, MeshResults = None,
           OtherLists = []\<rparr>"

text \<open>Scenario B: \<open>aN = [0,0,0]\<close>, every other component \<open>[]\<close>.\<close>

definition rec_b :: result where
  "rec_b = \<lparr>Member = Some ''B1'', Load = Some ''LC1'',
            series = [''aN'' \<mapsto> [0, 0, 0], ''aVy'' \<mapsto> [], ''aVz'' \<mapsto> [],
                      ''aMx'' \<mapsto> [], ''aMy'' \<mapsto> [], ''aMz'' \<mapsto> []]\<rparr>"

text \<open>Scenario C: \<open>aVz = [0, 5.2, 0]\<close>, every other component \<open>[]\<close>.\<close>

definition rec_c :: result where
  "rec_c = \<lparr>Member = Some ''B1'', Load = Some ''LC1'',
            series = [''aN'' \<mapsto> [], ''aVy'' \<mapsto> [], ''aVz'' \<mapsto> [0, 52 / 10, 0],
                      ''aMx'' \<mapsto> [], ''aMy'' \<mapsto> [], ''aMz'' \<mapsto> []]\<rparr>"

text \<open>
  Scenario D: two MeshResult records for the same (panel, load) pair with
  different values, both with non-zero components.
\<close>

definition rec_d1 :: result where
  "rec_d1 = \<lparr>Member = Some ''P1'', Load = Some ''LC1'', series = [''amx'' \<mapsto> [1, 2]]\<rparr>"

definition rec_d2 :: result where
  "rec_d2 = \<lparr>Member = Some ''P1'', Load = Some ''LC1'', series = [''amx'' \<mapsto> [3, 4]]\<rparr>"

text \<open>
  Scenario A: one Bar whose CrossSection id is \<open>CS-missing\<close>, no
  CrossSection collection; and the same bar without a Name.
\<close>

definition bar_a :: bar where
  "bar_a = \<lparr>bar_Id = Some ''B1'', bar_Name = Some ''Viga 1'',
            bar_CrossSection = Some ''CS-missing'', bar_Nodes = None\<rparr>"

definition doc_a :: document where
  "doc_a = doc0\<lparr>CurveMembers := Some [bar_a]\<rparr>"

definition doc_a_unnamed :: document where
  "doc_a_unnamed = doc0\<lparr>CurveMembers := Some [bar_a\<lparr>bar_Name := None\<rparr>]\<rparr>"

text \<open>
  Scenario E: a Result1D record whose Member is the id of no Bar. Every
  component of the record is non-zero.
\<close>

definition rec_e :: result where
  "rec_e = \<lparr>Member = Some ''B9'', Load = Some ''LC1'',
            series = [''aN'' \<mapsto> [1], ''aVy'' \<mapsto> [1], ''aVz'' \<mapsto> [1],
                      ''aMx'' \<mapsto> [1], ''aMy'' \<mapsto> [1], ''aMz'' \<mapsto> [1]]\<rparr>"

definition doc_e :: document where
  "doc_e = doc0\<lparr>CurveMembers := Some [bar_a\<lparr>bar_CrossSection := None\<rparr>],
                Results1D := Some [rec_e]\<rparr>"

text \<open>A surface that names a material while the document has none.\<close>

definition doc_m :: document where
  "doc_m = doc0\<lparr>SurfaceMembers :=
              Some [\<lparr>surf_Id = Some ''S1'', surf_Name = Some ''Losa 1'',
                     surf_Nodes = None, surf_Materials = Some [''M-missing'']\<rparr>]\<rparr>"

text \<open>An opening without a Surface field, in a document with one surface.\<close>

definition doc_o :: document where
  "doc_o = doc0\<lparr>SurfaceMembers :=
              Some [\<lparr>surf_Id = Some ''S1'', surf_Name = Some ''Losa 1'',
                     surf_Nodes = None, surf_Materials = None\<rparr>],
            SurfaceMemberOpenings := Some [\<lparr>op_Name = Some ''Hueco 1'', op_Surface = None\<rparr>]\<rparr>"

text \<open>Scenario E with the bar renamed to the record's owner: nothing to report.\<close>

definition doc_ok :: document where
  "doc_ok = doc0\<lparr>CurveMembers := Some [bar_a\<lparr>bar_Id := Some ''B9'', bar_CrossSection := None\<rparr>],
                 Results1D := Some [rec_e]\<rparr>"

section \<open>Properties\<close>

subsection \<open>Counting helpers\<close>

lemma sum_ones: "sum_list (map (\<lambda>x. Suc 0) xs) = length xs"
  by (induction xs) simp_all

lemma nz_count_length: "nz_count cs r = length (filter (comp_nz r) cs)"
  by (simp add: nz_count_def sum_ones)

lemma nz_count_le: "nz_count cs r \<le> length cs"
  by (simp add: nz_count_length)

lemma nz_count_card:
  "distinct cs \<Longrightarrow> nz_count cs r = card {c \<in> set cs. comp_nz r c}"
  by (simp add: nz_count_length distinct_length_filter Collect_conj_eq Int_commute
      Collect_mem_eq)

lemma distinct_COMPS_1D: "distinct COMPS_1D"
  by (simp add: COMPS_1D_def)

lemma distinct_COMPS_MESH: "distinct COMPS_MESH"
  by (simp add: COMPS_MESH_def)

lemma nz_ratio_1d_eq: "nz_ratio_1d r = real (nz_count COMPS_1D r) / 6"
  by (simp add: nz_ratio_1d_def COMPS_1D_def)

lemma nz_ratio_mesh_eq: "nz_ratio_mesh r = real (nz_count COMPS_MESH r) / 8"
  by (simp add: nz_ratio_mesh_def COMPS_MESH_def)

lemma nz_ratio_1d_range: "0 \<le> nz_ratio_1d r \<and> nz_ratio_1d r \<le> 1"
proof -
  have "nz_count COMPS_1D r \<le> 6"
    using nz_count_le [of COMPS_1D r] by (simp add: COMPS_1D_def)
  then show ?thesis by (simp add: nz_ratio_1d_eq)
qed

lemma nz_ratio_mesh_range: "0 \<le> nz_ratio_mesh r \<and> nz_ratio_mesh r \<le> 1"
proof -
  have "nz_count COMPS_MESH r \<le> 8"
    using nz_count_le [of COMPS_MESH r] by (simp add: COMPS_MESH_def)
  then show ?thesis by (simp add: nz_ratio_mesh_eq)
qed

lemma counts_partition:
  assumes "\<And>r. 0 \<le> ratio r \<and> ratio r \<le> 1"
  shows "length rs = count_full ratio rs + count_partial ratio rs + count_empty ratio rs"
proof (induction rs)
  case Nil
  show ?case by (simp add: count_full_def count_partial_def count_empty_def)
next
  case (Cons r rs)
  have "ratio r = 1 \<or> (0 < ratio r \<and> ratio r < 1) \<or> ratio r = 0"
    using assms [of r] by linarith
  with Cons show ?case
    by (auto simp: count_full_def count_partial_def count_empty_def)
qed

subsection \<open>The loop computes the closed forms\<close>

lemma fold_max_Max: "fold max vs (v::real) = Max (set (v # vs))"
  by (rule Max.set_eq_fold [symmetric])

lemma Max_insert_Max:
  fixes P A :: "real set"
  assumes "finite P" "finite A"
  shows "Max (insert (Max (insert m P)) A) = Max (insert m (P \<union> A))"
proof (cases "A = {}")
  case True
  then show ?thesis by simp
next
  case False
  have "Max (insert (Max (insert m P)) A) = max (Max (insert m P)) (Max A)"
    using assms False by simp
  also have "\<dots> = Max (insert m P \<union> A)"
    using assms False by (subst Max_Un) auto
  finally show ?thesis by simp
qed

lemma track_max_char:
  assumes "mv c = Some m"
  shows "track_max r c mv = Inr (mv(c \<mapsto> Max (insert m (abs ` set (get_series r c)))))"
proof (cases "get_series r c")
  case Nil
  then show ?thesis using assms by (simp add: track_max_def map_upd_triv)
next
  case (Cons v vs)
  then show ?thesis using assms
    by (simp add: track_max_def fold_max_Max del: set_simps) (simp add: insert_commute)
qed

lemma track_all_char:
  "distinct cs \<Longrightarrow> set cs \<subseteq> dom mv \<Longrightarrow>
   track_all r cs mv =
     Inr (\<lambda>k. if k \<in> set cs then Some (Max (insert (the (mv k)) (abs ` set (get_series r k))))
              else mv k)"
proof (induction cs arbitrary: mv)
  case Nil
  then show ?case by simp
next
  case (Cons c cs)
  from Cons.prems obtain m where m: "mv c = Some m" by auto
  let ?mv = "mv(c \<mapsto> Max (insert m (abs ` set (get_series r c))))"
  have "distinct cs" using Cons.prems by simp
  moreover have "set cs \<subseteq> dom ?mv" using Cons.prems by auto
  ultimately have "track_all r cs ?mv =
     Inr (\<lambda>k. if k \<in> set cs then Some (Max (insert (the (?mv k)) (abs ` set (get_series r k))))
              else ?mv k)"
    by (rule Cons.IH)
  moreover have "track_max r c mv = Inr ?mv"
    using m by (rule track_max_char)
  ultimately show ?case using m Cons.prems
    by (auto simp: fun_eq_iff)
qed

lemma classify_loop_snoc:
  "classify_loop cs ratio (xs @ [x]) st =
     (case classify_loop cs ratio xs st of
        Inl e \<Rightarrow> Inl e
      | Inr st' \<Rightarrow> record_result cs ratio x st')"
  by (induction xs arbitrary: st) (auto split: sum.splits)


lemma peaks_snoc:
  "peaks (rs @ [r]) bid c =
     (if owner_of r = bid then peaks rs bid c \<union> abs ` set (get_series r c) else peaks rs bid c)"
  by (auto simp: peaks_def)

lemma finite_peaks: "finite (peaks rs bid c)"
  by (simp add: peaks_def)

lemma peaks_absent: "bid \<notin> owner_of ` set rs \<Longrightarrow> peaks rs bid c = {}"
  by (auto simp: peaks_def)

lemma dom_zero_map: "map_of (map (\<lambda>c. (c, 0::real)) cs) = (\<lambda>c. if c \<in> set cs then Some 0 else None)"
  by (induction cs) (auto simp: fun_eq_iff)

lemma record_result_char:
  assumes "distinct cs"
  shows "record_result cs ratio r (idx, summary_of cs ratio rs) =
           Inr (idx(key_of r \<mapsto> r), summary_of cs ratio (rs @ [r]))"
proof (cases "owner_of r \<in> owner_of ` set rs")
  case True
  let ?bid = "owner_of r"
  let ?mv = "\<lambda>c. if c \<in> set cs then Some (Max (insert 0 (peaks rs ?bid c))) else None"
  have t: "track_all r cs ?mv =
     Inr (\<lambda>k. if k \<in> set cs then Some (Max (insert (the (?mv k)) (abs ` set (get_series r k))))
              else ?mv k)"
    using assms by (intro track_all_char) (auto split: if_splits)
  show ?thesis using True
    apply (simp add: record_result_def Let_def summary_of_def t key_of_def)
    apply (auto simp: fun_eq_iff peaks_snoc Max_insert_Max finite_peaks)
    done
next
  case False
  let ?bid = "owner_of r"
  let ?mv = "map_of (map (\<lambda>c. (c, 0::real)) cs)"
  have t: "track_all r cs ?mv =
     Inr (\<lambda>k. if k \<in> set cs then Some (Max (insert (the (?mv k)) (abs ` set (get_series r k))))
              else ?mv k)"
    using assms by (intro track_all_char) (auto simp: dom_zero_map split: if_splits)
  have none: "\<And>x. x \<in> set rs \<Longrightarrow> owner_of x \<noteq> owner_of r"
    using False by (metis image_eqI)
  have f1: "filter (\<lambda>x. owner_of x = owner_of r \<and> 0 < ratio x) rs = []"
    and f2: "filter (\<lambda>x. owner_of x = owner_of r \<and> \<not> 0 < ratio x) rs = []"
    using none by (auto simp: filter_empty_conv)
  show ?thesis using False
    apply (simp add: record_result_def Let_def summary_of_def t key_of_def fresh_info_def f1 f2)
    apply (auto simp: fun_eq_iff peaks_snoc peaks_absent dom_zero_map f1 f2)
    done
qed

lemma classify_loop_char:
  assumes "distinct cs"
  shows "classify_loop cs ratio rs (Map.empty, Map.empty) =
           Inr (index_of_list rs, summary_of cs ratio rs)"
proof (induction rs rule: rev_induct)
  case Nil
  show ?case by (simp add: index_of_list_def summary_of_def)
next
  case (snoc r rs)
  show ?case
    by (simp add: classify_loop_snoc snoc record_result_char [OF assms] index_of_list_def
        map_of_append fun_eq_iff map_add_def)
qed

subsection \<open>The render functions in closed form\<close>

lemma classify_char:
  assumes "distinct cs"
  shows "classify cs ratio rs =
     Inr \<lparr>result_index = index_of_list rs, owner_summary = summary_of cs ratio rs,
          n_total = length rs, n_full = count_full ratio rs,
          n_partial = count_partial ratio rs, n_empty = count_empty ratio rs\<rparr>"
  by (simp add: classify_def classify_loop_char [OF assms])

lemma render_results_1d_char:
  "render_results_1d d =
     (if coll (Results1D d) = [] then Inr None
      else Inr (Some \<lparr>result_index = index_of_list (coll (Results1D d)),
                      owner_summary = summary_of COMPS_1D nz_ratio_1d (coll (Results1D d)),
                      n_total = length (coll (Results1D d)),
                      n_full = count_full nz_ratio_1d (coll (Results1D d)),
                      n_partial = count_partial nz_ratio_1d (coll (Results1D d)),
                      n_empty = count_empty nz_ratio_1d (coll (Results1D d))\<rparr>))"
  by (simp add: render_results_1d_def Let_def classify_char [OF distinct_COMPS_1D])

lemma render_mesh_results_char:
  "render_mesh_results d =
     (if coll (MeshResults d) = [] then Inr None
      else Inr (Some \<lparr>result_index = index_of_list (coll (MeshResults d)),
                      owner_summary = summary_of COMPS_MESH nz_ratio_mesh (coll (MeshResults d)),
                      n_total = length (coll (MeshResults d)),
                      n_full = count_full nz_ratio_mesh (coll (MeshResults d)),
                      n_partial = count_partial nz_ratio_mesh (coll (MeshResults d)),
                      n_empty = count_empty nz_ratio_mesh (coll (MeshResults d))\<rparr>))"
  by (simp add: render_mesh_results_def Let_def classify_char [OF distinct_COMPS_MESH])

lemma nz_b: "nz_count COMPS_1D rec_b = 0"
  by (simp add: nz_count_def COMPS_1D_def comp_nz_def get_series_def rec_b_def)

lemma nz_c: "nz_count COMPS_1D rec_c = 1"
  by (simp add: nz_count_def COMPS_1D_def comp_nz_def get_series_def rec_c_def)

subsection \<open>Session counts\<close>

text \<open>
  Claim C2. For every result collection, 1D and mesh, the empty one included,
  the number of records is the sum of the three session counts: the records
  of ratio exactly 1 (complete), of ratio strictly between 0 and 1 (partial)
  and of ratio exactly 0 (empty). The first two conjuncts are the count
  expressions of lines 383 to 386 and 486 to 489 on any list; the last two
  are the same equation on the report that the render functions build. On an
  empty collection the render functions return before they count, and the
  count expressions give 0 = 0 + 0 + 0.
\<close>

theorem session_counts_add_up:
  "length rs = count_full nz_ratio_1d rs + count_partial nz_ratio_1d rs + count_empty nz_ratio_1d rs
   \<and> length ms = count_full nz_ratio_mesh ms + count_partial nz_ratio_mesh ms
                  + count_empty nz_ratio_mesh ms
   \<and> (\<forall>rep. render_results_1d d = Inr (Some rep) \<longrightarrow>
          n_total rep = length (coll (Results1D d))
          \<and> n_total rep = n_full rep + n_partial rep + n_empty rep)
   \<and> (\<forall>rep. render_mesh_results d = Inr (Some rep) \<longrightarrow>
          n_total rep = length (coll (MeshResults d))
          \<and> n_total rep = n_full rep + n_partial rep + n_empty rep)"
proof -
  have a: "\<And>rs. length rs = count_full nz_ratio_1d rs + count_partial nz_ratio_1d rs
                  + count_empty nz_ratio_1d rs"
    by (rule counts_partition) (rule nz_ratio_1d_range)
  have b: "\<And>ms. length ms = count_full nz_ratio_mesh ms + count_partial nz_ratio_mesh ms
                  + count_empty nz_ratio_mesh ms"
    by (rule counts_partition) (rule nz_ratio_mesh_range)
  have c: "\<forall>rep. render_results_1d d = Inr (Some rep) \<longrightarrow>
          n_total rep = length (coll (Results1D d))
          \<and> n_total rep = n_full rep + n_partial rep + n_empty rep"
    using a [of "coll (Results1D d)"]
    by (auto simp: render_results_1d_char split: if_splits)
  have e: "\<forall>rep. render_mesh_results d = Inr (Some rep) \<longrightarrow>
          n_total rep = length (coll (MeshResults d))
          \<and> n_total rep = n_full rep + n_partial rep + n_empty rep"
    using b [of "coll (MeshResults d)"]
    by (auto simp: render_mesh_results_char split: if_splits)
  show ?thesis using a b c e by blast
qed

lemma ratio_c: "nz_ratio_1d rec_c = 1 / 6"
  by (simp add: nz_ratio_1d_eq nz_c)

lemma counts_c:
  "count_full nz_ratio_1d [rec_c] = 0" "count_partial nz_ratio_1d [rec_c] = 1"
  "count_empty nz_ratio_1d [rec_c] = 0"
  by (simp_all add: count_full_def count_partial_def count_empty_def ratio_c)

theorem session_counts_add_up_witness:
  "render_results_1d (doc0\<lparr>Results1D := Some [rec_c]\<rparr>) =
     Inr (Some \<lparr>result_index = index_of_list [rec_c],
                owner_summary = summary_of COMPS_1D nz_ratio_1d [rec_c],
                n_total = 1, n_full = 0, n_partial = 1, n_empty = 0\<rparr>)
   \<and> (1::nat) = 0 + 1 + 0"
  using session_counts_add_up [of "[rec_c]" "[]" "doc0\<lparr>Results1D := Some [rec_c]\<rparr>"]
  by (simp add: render_results_1d_char coll_def counts_c)

subsection \<open>Non-zero classification\<close>

lemma comp_nz_iff: "comp_nz r c \<longleftrightarrow> (\<exists>v\<in>set (get_series r c). \<bar>v\<bar> > 1 / 1000000)"
  by (simp add: comp_nz_def list_ex_iff)

lemma ratio_b: "nz_ratio_1d rec_b = 0"
  by (simp add: nz_ratio_1d_eq nz_b)

text \<open>
  Claim C3. A component of a record is classified non-zero exactly when some
  element of its sequence has absolute value strictly above 1e-6; an absent
  sequence, an empty one, and one whose values all have magnitude at most
  1e-6 (all zeros included) are classified zero. The ratio of a record is the
  number of non-zero components over 6 (1D) or 8 (mesh). Scenario B: the
  Result1D record with aN = [0,0,0] and every other component empty has ratio
  0, is shown as empty, and is counted as empty.
\<close>

theorem nonzero_classification:
  "(comp_nz r c \<longleftrightarrow> (\<exists>v\<in>set (get_series r c). \<bar>v\<bar> > 1 / 1000000))
   \<and> (series r c = None \<longrightarrow> \<not> comp_nz r c)
   \<and> (series r c = Some [] \<longrightarrow> \<not> comp_nz r c)
   \<and> ((\<forall>v\<in>set (get_series r c). v = 0) \<longrightarrow> \<not> comp_nz r c)
   \<and> ((\<forall>v\<in>set (get_series r c). \<bar>v\<bar> \<le> 1 / 1000000) \<longrightarrow> \<not> comp_nz r c)
   \<and> nz_ratio_1d r = real (card {c \<in> set COMPS_1D. comp_nz r c}) / 6
   \<and> nz_ratio_mesh r = real (card {c \<in> set COMPS_MESH. comp_nz r c}) / 8
   \<and> nz_ratio_1d rec_b = 0 / 6
   \<and> status_of (nz_ratio_1d rec_b) = Vacio
   \<and> count_empty nz_ratio_1d [rec_b] = 1"
proof -
  have 1: "series r c = None \<longrightarrow> \<not> comp_nz r c"
    by (simp add: comp_nz_def get_series_def)
  have 2: "series r c = Some [] \<longrightarrow> \<not> comp_nz r c"
    by (simp add: comp_nz_def get_series_def)
  have 3: "(\<forall>v\<in>set (get_series r c). v = 0) \<longrightarrow> \<not> comp_nz r c"
    by (auto simp: comp_nz_iff)
  have 4: "(\<forall>v\<in>set (get_series r c). \<bar>v\<bar> \<le> 1 / 1000000) \<longrightarrow> \<not> comp_nz r c"
    by (fastforce simp: comp_nz_iff)
  have 5: "nz_ratio_1d r = real (card {c \<in> set COMPS_1D. comp_nz r c}) / 6"
    by (simp add: nz_ratio_1d_eq nz_count_card [OF distinct_COMPS_1D])
  have 6: "nz_ratio_mesh r = real (card {c \<in> set COMPS_MESH. comp_nz r c}) / 8"
    by (simp add: nz_ratio_mesh_eq nz_count_card [OF distinct_COMPS_MESH])
  have 7: "status_of (nz_ratio_1d rec_b) = Vacio"
    by (simp add: status_of_def ratio_b)
  have 8: "count_empty nz_ratio_1d [rec_b] = 1"
    by (simp add: count_empty_def ratio_b)
  show ?thesis using comp_nz_iff [of r c] 1 2 3 4 5 6 7 8 ratio_b by simp
qed

theorem nonzero_classification_witness:
  "series rec_b ''aMz'' = Some []
   \<and> get_series rec_b ''aN'' = [0, 0, 0]
   \<and> \<not> comp_nz rec_b ''aN'' \<and> \<not> comp_nz rec_b ''aMz''
   \<and> get_series rec_c ''aVz'' = [0, 52 / 10, 0]
   \<and> comp_nz rec_c ''aVz''"
  using nonzero_classification [of rec_b "''aN''"] nonzero_classification [of rec_b "''aMz''"]
    nonzero_classification [of rec_c "''aVz''"]
  by (simp add: rec_b_def rec_c_def get_series_def)

subsection \<open>Order independence\<close>

lemma filter_length_mset:
  "mset xs = mset ys \<Longrightarrow> length (filter P xs) = length (filter P ys)"
proof -
  assume "mset xs = mset ys"
  then have "mset (filter P xs) = mset (filter P ys)" by simp
  then show ?thesis by (rule mset_eq_length)
qed

lemma summary_of_mset:
  assumes "mset rs = mset rs'"
  shows "summary_of cs ratio rs = summary_of cs ratio rs'"
proof -
  have s: "set rs = set rs'" using assms by (rule mset_eq_setD)
  have p: "\<And>bid c. peaks rs bid c = peaks rs' bid c" by (simp add: peaks_def s)
  show ?thesis
    by (simp add: summary_of_def fun_eq_iff s p filter_length_mset [OF assms])
qed

lemma counts_mset:
  assumes "mset rs = mset rs'"
  shows "count_full ratio rs = count_full ratio rs'"
    and "count_partial ratio rs = count_partial ratio rs'"
    and "count_empty ratio rs = count_empty ratio rs'"
  by (simp_all add: count_full_def count_partial_def count_empty_def sum_ones
      filter_length_mset [OF assms])

text \<open>
  Claim C1. Permuting the records of a 1D or mesh result collection changes
  neither the per-owner summary (the nonzero and zero counts and the maxima
  per component) nor the complete, partial and empty counts.
\<close>

theorem order_independence:
  assumes "mset rs = mset rs'"
  shows "(\<exists>rep rep'. classify COMPS_1D nz_ratio_1d rs = Inr rep
            \<and> classify COMPS_1D nz_ratio_1d rs' = Inr rep'
            \<and> owner_summary rep = owner_summary rep'
            \<and> n_full rep = n_full rep' \<and> n_partial rep = n_partial rep'
            \<and> n_empty rep = n_empty rep')
       \<and> (\<exists>rep rep'. classify COMPS_MESH nz_ratio_mesh rs = Inr rep
            \<and> classify COMPS_MESH nz_ratio_mesh rs' = Inr rep'
            \<and> owner_summary rep = owner_summary rep'
            \<and> n_full rep = n_full rep' \<and> n_partial rep = n_partial rep'
            \<and> n_empty rep = n_empty rep')"
  by (simp add: classify_char distinct_COMPS_1D distinct_COMPS_MESH
      summary_of_mset [OF assms] counts_mset [OF assms])

theorem order_independence_witness:
  "mset [rec_b, rec_c] = mset [rec_c, rec_b]
   \<and> map_sum id owner_summary (classify COMPS_1D nz_ratio_1d [rec_b, rec_c])
     = map_sum id owner_summary (classify COMPS_1D nz_ratio_1d [rec_c, rec_b])
   \<and> map_sum id n_partial (classify COMPS_1D nz_ratio_1d [rec_b, rec_c])
     = map_sum id n_partial (classify COMPS_1D nz_ratio_1d [rec_c, rec_b])
   \<and> map_sum id n_empty (classify COMPS_1D nz_ratio_1d [rec_b, rec_c])
     = map_sum id n_empty (classify COMPS_1D nz_ratio_1d [rec_c, rec_b])"
proof -
  have m: "mset [rec_b, rec_c] = mset [rec_c, rec_b]" by (simp add: add.commute)
  show ?thesis using m order_independence [OF m] by auto
qed

subsection \<open>Per-owner maxima\<close>

lemma peaks_eq:
  "peaks rs bid c = {\<bar>v\<bar> | r v. r \<in> set rs \<and> owner_of r = bid \<and> v \<in> set (get_series r c)}"
  by (auto simp: peaks_def)

lemma Max_insert_0:
  fixes P :: "real set"
  assumes "finite P" "\<forall>x\<in>P. 0 \<le> x"
  shows "Max (insert 0 P) = (if P = {} then 0 else Max P)"
proof (cases "P = {}")
  case True
  then show ?thesis by simp
next
  case False
  then obtain x where "x \<in> P" by auto
  then have "0 \<le> Max P" using assms by (meson Max_ge order_trans)
  then show ?thesis using False assms by simp
qed

lemma peaks_nonneg: "\<forall>x\<in>peaks rs bid c. 0 \<le> x"
  by (auto simp: peaks_def)

lemma summary_max_vals:
  assumes "r \<in> set rs" "c \<in> set cs"
  shows "\<exists>info. summary_of cs ratio rs (owner_of r) = Some info
           \<and> max_vals info c =
               Some (if peaks rs (owner_of r) c = {} then 0 else Max (peaks rs (owner_of r) c))"
  using assms by (simp add: summary_of_def Max_insert_0 [OF finite_peaks peaks_nonneg])

lemma summary_max_vals_set:
  assumes "r \<in> set rs" "c \<in> set cs"
  shows "\<exists>info. summary_of cs ratio rs (owner_of r) = Some info
           \<and> max_vals info c = Some
                (let vals = {\<bar>v\<bar> | r' v. r' \<in> set rs \<and> owner_of r' = owner_of r
                                       \<and> v \<in> set (get_series r' c)}
                 in if vals = {} then 0 else Max vals)"
  using summary_max_vals [OF assms] unfolding peaks_eq Let_def .

lemma summary_c:
  "summary_of COMPS_1D nz_ratio_1d [rec_c] ''B1'' =
     Some \<lparr>nonzero = 1, zero = 0,
           max_vals = [''aN'' \<mapsto> 0, ''aVy'' \<mapsto> 0, ''aVz'' \<mapsto> 52 / 10,
                       ''aMx'' \<mapsto> 0, ''aMy'' \<mapsto> 0, ''aMz'' \<mapsto> 0]\<rparr>"
proof -
  have o: "owner_of rec_c = ''B1''" by (simp add: owner_of_def rec_c_def)
  have p: "\<And>c. peaks [rec_c] ''B1'' c = abs ` set (get_series rec_c c)"
    using o by (auto simp: peaks_def)
  have g: "\<And>c. get_series rec_c c = (if c = ''aVz'' then [0, 52 / 10, 0] else [])"
    by (simp add: get_series_def rec_c_def)
  show ?thesis
    by (simp add: summary_of_def o ratio_c p g fun_eq_iff COMPS_1D_def)
qed

text \<open>
  Claim C4. For every owner of a record of the collection (1D or mesh), the
  summary holds, for each component, the largest absolute value among all
  elements of that component's sequences in the owner's records, and 0 when
  those sequences have no element. Scenario C: the single Result1D record
  with aVz = [0, 5.2, 0] and every other component empty has ratio 1/6, is
  shown as partial, and its bar's maximum for aVz is 5.2.
\<close>

theorem owner_maxima:
  "(\<forall>r\<in>set (coll (Results1D d)). \<forall>c\<in>set COMPS_1D.
      \<exists>rep info. render_results_1d d = Inr (Some rep)
        \<and> owner_summary rep (owner_of r) = Some info
        \<and> max_vals info c = Some
            (let vals = {\<bar>v\<bar> | r' v. r' \<in> set (coll (Results1D d)) \<and> owner_of r' = owner_of r
                                   \<and> v \<in> set (get_series r' c)}
             in if vals = {} then 0 else Max vals))
   \<and> (\<forall>r\<in>set (coll (MeshResults d)). \<forall>c\<in>set COMPS_MESH.
      \<exists>rep info. render_mesh_results d = Inr (Some rep)
        \<and> owner_summary rep (owner_of r) = Some info
        \<and> max_vals info c = Some
            (let vals = {\<bar>v\<bar> | r' v. r' \<in> set (coll (MeshResults d)) \<and> owner_of r' = owner_of r
                                   \<and> v \<in> set (get_series r' c)}
             in if vals = {} then 0 else Max vals))
   \<and> nz_ratio_1d rec_c = 1 / 6
   \<and> status_of (nz_ratio_1d rec_c) = Parcial
   \<and> count_partial nz_ratio_1d [rec_c] = 1
   \<and> map_sum id (map_option (\<lambda>rep. map_option (\<lambda>info. max_vals info ''aVz'')
                                      (owner_summary rep ''B1'')))
        (render_results_1d (doc0\<lparr>Results1D := Some [rec_c]\<rparr>))
      = Inr (Some (Some (Some (52 / 10))))"
proof -
  have a: "\<forall>r\<in>set (coll (Results1D d)). \<forall>c\<in>set COMPS_1D.
      \<exists>rep info. render_results_1d d = Inr (Some rep)
        \<and> owner_summary rep (owner_of r) = Some info
        \<and> max_vals info c = Some
            (let vals = {\<bar>v\<bar> | r' v. r' \<in> set (coll (Results1D d)) \<and> owner_of r' = owner_of r
                                   \<and> v \<in> set (get_series r' c)}
             in if vals = {} then 0 else Max vals)"
  proof (intro ballI)
    fix r c assume r: "r \<in> set (coll (Results1D d))" and c: "c \<in> set COMPS_1D"
    from r have ne: "coll (Results1D d) \<noteq> []" by auto
    from summary_max_vals_set [OF r c, of nz_ratio_1d] obtain info
      where i: "summary_of COMPS_1D nz_ratio_1d (coll (Results1D d)) (owner_of r) = Some info"
        and m: "max_vals info c = Some
            (let vals = {\<bar>v\<bar> | r' v. r' \<in> set (coll (Results1D d)) \<and> owner_of r' = owner_of r
                                   \<and> v \<in> set (get_series r' c)}
             in if vals = {} then 0 else Max vals)"
      by blast
    obtain rep where rr: "render_results_1d d = Inr (Some rep)"
      and os: "owner_summary rep = summary_of COMPS_1D nz_ratio_1d (coll (Results1D d))"
      using ne by (simp add: render_results_1d_char)
    show "\<exists>rep info. render_results_1d d = Inr (Some rep)
        \<and> owner_summary rep (owner_of r) = Some info
        \<and> max_vals info c = Some
            (let vals = {\<bar>v\<bar> | r' v. r' \<in> set (coll (Results1D d)) \<and> owner_of r' = owner_of r
                                   \<and> v \<in> set (get_series r' c)}
             in if vals = {} then 0 else Max vals)"
      using rr os i m by metis
  qed
  have b: "\<forall>r\<in>set (coll (MeshResults d)). \<forall>c\<in>set COMPS_MESH.
      \<exists>rep info. render_mesh_results d = Inr (Some rep)
        \<and> owner_summary rep (owner_of r) = Some info
        \<and> max_vals info c = Some
            (let vals = {\<bar>v\<bar> | r' v. r' \<in> set (coll (MeshResults d)) \<and> owner_of r' = owner_of r
                                   \<and> v \<in> set (get_series r' c)}
             in if vals = {} then 0 else Max vals)"
  proof (intro ballI)
    fix r c assume r: "r \<in> set (coll (MeshResults d))" and c: "c \<in> set COMPS_MESH"
    from r have ne: "coll (MeshResults d) \<noteq> []" by auto
    from summary_max_vals_set [OF r c, of nz_ratio_mesh] obtain info
      where i: "summary_of COMPS_MESH nz_ratio_mesh (coll (MeshResults d)) (owner_of r) = Some info"
        and m: "max_vals info c = Some
            (let vals = {\<bar>v\<bar> | r' v. r' \<in> set (coll (MeshResults d)) \<and> owner_of r' = owner_of r
                                   \<and> v \<in> set (get_series r' c)}
             in if vals = {} then 0 else Max vals)"
      by blast
    obtain rep where rr: "render_mesh_results d = Inr (Some rep)"
      and os: "owner_summary rep = summary_of COMPS_MESH nz_ratio_mesh (coll (MeshResults d))"
      using ne by (simp add: render_mesh_results_char)
    show "\<exists>rep info. render_mesh_results d = Inr (Some rep)
        \<and> owner_summary rep (owner_of r) = Some info
        \<and> max_vals info c = Some
            (let vals = {\<bar>v\<bar> | r' v. r' \<in> set (coll (MeshResults d)) \<and> owner_of r' = owner_of r
                                   \<and> v \<in> set (get_series r' c)}
             in if vals = {} then 0 else Max vals)"
      using rr os i m by metis
  qed
  have c: "status_of (nz_ratio_1d rec_c) = Parcial"
    by (simp add: status_of_def ratio_c)
  have e: "map_sum id (map_option (\<lambda>rep. map_option (\<lambda>info. max_vals info ''aVz'')
                                      (owner_summary rep ''B1'')))
        (render_results_1d (doc0\<lparr>Results1D := Some [rec_c]\<rparr>))
      = Inr (Some (Some (Some (52 / 10))))"
    by (simp add: render_results_1d_char coll_def summary_c)
  show ?thesis using a b c e ratio_c counts_c(2) by blast
qed

theorem owner_maxima_witness:
  "rec_c \<in> set (coll (Results1D (doc0\<lparr>Results1D := Some [rec_c]\<rparr>)))
   \<and> ''aVz'' \<in> set COMPS_1D
   \<and> render_results_1d (doc0\<lparr>Results1D := Some [rec_c]\<rparr>)
       = Inr (Some \<lparr>result_index = index_of_list [rec_c],
                    owner_summary = summary_of COMPS_1D nz_ratio_1d [rec_c],
                    n_total = 1, n_full = 0, n_partial = 1, n_empty = 0\<rparr>)
   \<and> owner_of rec_c = ''B1''
   \<and> summary_of COMPS_1D nz_ratio_1d [rec_c] ''B1'' =
       Some \<lparr>nonzero = 1, zero = 0,
             max_vals = [''aN'' \<mapsto> 0, ''aVy'' \<mapsto> 0, ''aVz'' \<mapsto> 52 / 10,
                         ''aMx'' \<mapsto> 0, ''aMy'' \<mapsto> 0, ''aMz'' \<mapsto> 0]\<rparr>
   \<and> (let vals = {\<bar>v\<bar> | r' v. r' \<in> set [rec_c] \<and> owner_of r' = ''B1''
                            \<and> v \<in> set (get_series r' ''aVz'')}
      in if vals = {} then 0 else Max vals) = 52 / 10"
proof -
  let ?d = "doc0\<lparr>Results1D := Some [rec_c]\<rparr>"
  have m: "rec_c \<in> set (coll (Results1D ?d))" by (simp add: coll_def)
  have k: "''aVz'' \<in> set COMPS_1D" by (simp add: COMPS_1D_def)
  have o: "owner_of rec_c = ''B1''" by (simp add: owner_of_def rec_c_def)
  from owner_maxima [of ?d] m k
  have "\<exists>rep info. render_results_1d ?d = Inr (Some rep)
        \<and> owner_summary rep (owner_of rec_c) = Some info
        \<and> max_vals info ''aVz'' = Some
            (let vals = {\<bar>v\<bar> | r' v. r' \<in> set (coll (Results1D ?d)) \<and> owner_of r' = owner_of rec_c
                                   \<and> v \<in> set (get_series r' ''aVz'')}
             in if vals = {} then 0 else Max vals)"
    by blast
  then have v: "(let vals = {\<bar>v\<bar> | r' v. r' \<in> set [rec_c] \<and> owner_of r' = ''B1''
                            \<and> v \<in> set (get_series r' ''aVz'')}
      in if vals = {} then 0 else Max vals) = 52 / 10"
    by (auto simp: render_results_1d_char coll_def o summary_c)
  show ?thesis using m k o v
    by (simp add: render_results_1d_char coll_def summary_c counts_c)
qed

subsection \<open>Duplicate result keys\<close>

lemma index_last_wins:
  assumes "\<forall>r\<in>set zs. key_of r \<noteq> key_of r2"
  shows "index_of_list (ws @ r2 # zs) (key_of r2) = Some r2"
proof -
  have "map_of (rev (map (\<lambda>r. (key_of r, r)) zs)) (key_of r2) = None"
    using assms by (force simp: map_of_eq_None_iff)
  then show ?thesis
    by (simp add: index_of_list_def map_of_append map_add_def)
qed

lemma summary_counts_owner:
  assumes "r \<in> set rs"
  shows "\<exists>info. summary_of cs ratio rs (owner_of r) = Some info
          \<and> nonzero info + zero info = length (filter (\<lambda>x. owner_of x = owner_of r) rs)"
proof -
  have "length (filter (\<lambda>x. owner_of x = owner_of r \<and> 0 < ratio x) rs)
        + length (filter (\<lambda>x. owner_of x = owner_of r \<and> \<not> 0 < ratio x) rs)
        = length (filter (\<lambda>x. owner_of x = owner_of r) rs)"
    by (induction rs) auto
  then show ?thesis using assms by (simp add: summary_of_def)
qed

lemma duplicates_generic:
  assumes cs: "distinct cs"
    and rg: "\<And>r. 0 \<le> ratio r \<and> ratio r \<le> 1"
    and k: "key_of r1 = key_of r2"
    and z: "\<forall>r\<in>set zs. key_of r \<noteq> key_of r2"
  shows "\<exists>rep info. classify cs ratio (xs @ r1 # ys @ r2 # zs) = Inr rep
      \<and> result_index rep (key_of r2) = Some r2
      \<and> n_total rep = length (xs @ ys @ zs) + 2
      \<and> n_full rep + n_partial rep + n_empty rep
          = count_full ratio (xs @ ys @ zs) + count_partial ratio (xs @ ys @ zs)
            + count_empty ratio (xs @ ys @ zs) + 2
      \<and> owner_summary rep (owner_of r2) = Some info
      \<and> nonzero info + zero info
          = length (filter (\<lambda>x. owner_of x = owner_of r2) (xs @ ys @ zs)) + 2"
proof -
  let ?rs = "xs @ r1 # ys @ r2 # zs"
  have o: "owner_of r1 = owner_of r2" using k by (simp add: key_of_def)
  have i: "index_of_list ?rs (key_of r2) = Some r2"
    using index_last_wins [OF z, of "xs @ r1 # ys"] by simp
  have m: "r2 \<in> set ?rs" by simp
  from summary_counts_owner [OF m, of cs ratio] obtain info
    where s: "summary_of cs ratio ?rs (owner_of r2) = Some info"
      and n: "nonzero info + zero info = length (filter (\<lambda>x. owner_of x = owner_of r2) ?rs)"
    by blast
  have n': "nonzero info + zero info
      = length (filter (\<lambda>x. owner_of x = owner_of r2) (xs @ ys @ zs)) + 2"
    using n o by simp
  have c: "count_full ratio ?rs + count_partial ratio ?rs + count_empty ratio ?rs
      = count_full ratio (xs @ ys @ zs) + count_partial ratio (xs @ ys @ zs)
            + count_empty ratio (xs @ ys @ zs) + 2"
    using counts_partition [OF rg, of ?rs] counts_partition [OF rg, of "xs @ ys @ zs"]
    by simp
  show ?thesis
    using i s n' c by (simp add: classify_char [OF cs])
qed

text \<open>
  Claim C5. Two records with the same (owner id, load id) pair raise no
  error. The index maps the pair to the later record when no record after it
  has that pair (last write wins); both records count in the total, in the
  three completeness counts and in the owner's nonzero and zero counts.
  Stated for a collection \<open>xs @ r1 # ys @ r2 # zs\<close>, against the same
  collection without the two records.
\<close>

theorem duplicate_keys_last_write_wins:
  assumes "key_of r1 = key_of r2"
    and "\<forall>r\<in>set zs. key_of r \<noteq> key_of r2"
  shows "(\<exists>rep info. classify COMPS_1D nz_ratio_1d (xs @ r1 # ys @ r2 # zs) = Inr rep
      \<and> result_index rep (key_of r2) = Some r2
      \<and> n_total rep = length (xs @ ys @ zs) + 2
      \<and> n_full rep + n_partial rep + n_empty rep
          = count_full nz_ratio_1d (xs @ ys @ zs) + count_partial nz_ratio_1d (xs @ ys @ zs)
            + count_empty nz_ratio_1d (xs @ ys @ zs) + 2
      \<and> owner_summary rep (owner_of r2) = Some info
      \<and> nonzero info + zero info
          = length (filter (\<lambda>x. owner_of x = owner_of r2) (xs @ ys @ zs)) + 2)
    \<and> (\<exists>rep info. classify COMPS_MESH nz_ratio_mesh (xs @ r1 # ys @ r2 # zs) = Inr rep
      \<and> result_index rep (key_of r2) = Some r2
      \<and> n_total rep = length (xs @ ys @ zs) + 2
      \<and> n_full rep + n_partial rep + n_empty rep
          = count_full nz_ratio_mesh (xs @ ys @ zs) + count_partial nz_ratio_mesh (xs @ ys @ zs)
            + count_empty nz_ratio_mesh (xs @ ys @ zs) + 2
      \<and> owner_summary rep (owner_of r2) = Some info
      \<and> nonzero info + zero info
          = length (filter (\<lambda>x. owner_of x = owner_of r2) (xs @ ys @ zs)) + 2)"
  using duplicates_generic [of COMPS_1D nz_ratio_1d, OF distinct_COMPS_1D nz_ratio_1d_range assms]
    duplicates_generic [of COMPS_MESH nz_ratio_mesh, OF distinct_COMPS_MESH nz_ratio_mesh_range assms]
  by blast

lemma ratio_d: "nz_ratio_mesh rec_d1 = 1 / 8" "nz_ratio_mesh rec_d2 = 1 / 8"
  by (simp_all add: nz_ratio_mesh_eq nz_count_def COMPS_MESH_def comp_nz_def get_series_def
      rec_d1_def rec_d2_def)

lemma key_d: "key_of rec_d1 = (''P1'', ''LC1'')" "key_of rec_d2 = (''P1'', ''LC1'')"
  by (simp_all add: key_of_def owner_of_def load_of_def rec_d1_def rec_d2_def)

lemma rec_d_differ: "rec_d1 \<noteq> rec_d2"
proof
  assume "rec_d1 = rec_d2"
  then have "series rec_d1 ''amx'' = series rec_d2 ''amx''" by simp
  then show False by (simp add: rec_d1_def rec_d2_def)
qed

theorem duplicate_keys_last_write_wins_witness:
  "key_of rec_d1 = key_of rec_d2
   \<and> rec_d1 \<noteq> rec_d2
   \<and> map_sum id (\<lambda>rep. result_index rep (''P1'', ''LC1''))
        (classify COMPS_MESH nz_ratio_mesh [rec_d1, rec_d2]) = Inr (Some rec_d2)
   \<and> map_sum id n_total (classify COMPS_MESH nz_ratio_mesh [rec_d1, rec_d2]) = Inr 2
   \<and> map_sum id (\<lambda>rep. map_option nonzero (owner_summary rep ''P1''))
        (classify COMPS_MESH nz_ratio_mesh [rec_d1, rec_d2]) = Inr (Some 2)
   \<and> map_sum id (\<lambda>rep. map_option zero (owner_summary rep ''P1''))
        (classify COMPS_MESH nz_ratio_mesh [rec_d1, rec_d2]) = Inr (Some 0)"
proof -
  have k: "key_of rec_d1 = key_of rec_d2" by (simp add: key_d)
  have z: "\<forall>r\<in>set []. key_of r \<noteq> key_of rec_d2" by simp
  have o: "owner_of rec_d1 = ''P1''" "owner_of rec_d2 = ''P1''"
    using key_d by (simp_all add: key_of_def)
  from duplicate_keys_last_write_wins [OF k z, of "[]" "[]"]
  obtain rep info where c: "classify COMPS_MESH nz_ratio_mesh [rec_d1, rec_d2] = Inr rep"
    and i: "result_index rep (key_of rec_d2) = Some rec_d2"
    and t: "n_total rep = 2"
    and s: "owner_summary rep (owner_of rec_d2) = Some info"
    and n: "nonzero info + zero info = 2"
    by auto
  have "owner_summary rep = summary_of COMPS_MESH nz_ratio_mesh [rec_d1, rec_d2]"
    using c by (auto simp: classify_char [OF distinct_COMPS_MESH])
  then have nz: "nonzero info = 2" using s o
    by (auto simp: summary_of_def ratio_d)
  with n have ze: "zero info = 0" by simp
  show ?thesis using k rec_d_differ c i t s nz ze by (simp add: key_d o)
qed

subsection \<open>The Reference Validator\<close>

lemma concat_map_if:
  "concat (map (\<lambda>i. if P i then [f i] else []) xs) = map f (filter P xs)"
  by (induction xs) simp_all

lemma cs_issues_refs:
  "cs_issues mat_ids cs =
     map issue_for (unresolved_of MaterialOfSection mat_ids (cs_Name cs) (coll (cs_Materials cs)))"
  by (simp add: cs_issues_def unresolved_of_def concat_map_if comp_def)

lemma bar_section_issue_refs:
  "bar_section_issue cs_ids b =
     map issue_for (unresolved_of SectionOfBar cs_ids (bar_Name b)
                      (nonempty_ref (bar_CrossSection b)))"
  by (simp add: bar_section_issue_def unresolved_of_def nonempty_ref_def str_or_empty_def
      split: option.splits)

lemma bar_node_issues_refs:
  "bar_node_issues node_ids b =
     map issue_for (unresolved_of NodeOfBar node_ids (bar_Name b) (coll (bar_Nodes b)))"
  by (simp add: bar_node_issues_def unresolved_of_def concat_map_if comp_def)

lemma surf_issues_refs:
  "surf_issues node_ids s =
     map issue_for (unresolved_of NodeOfSurface node_ids (surf_Name s) (coll (surf_Nodes s)))"
  by (simp add: surf_issues_def unresolved_of_def concat_map_if comp_def)

lemma sup_issues_refs:
  "sup_issues node_ids sp =
     map issue_for (unresolved_of NodeOfSupport node_ids (sup_Name sp)
                      (nonempty_ref (sup_Node sp)))"
  by (simp add: sup_issues_def unresolved_of_def nonempty_ref_def str_or_empty_def
      split: option.splits)

lemma op_issues_refs:
  "op_issues surf_ids opn =
     map issue_for (unresolved_of SurfaceOfOpening surf_ids (op_Name opn)
                      [str_or_empty (op_Surface opn)])"
  by (simp add: op_issues_def unresolved_of_def)

lemma issues_of_refs: "issues_of d = map issue_for (unresolved_refs d)"
proof -
  have 1: "\<And>m. cs_issues m = (\<lambda>cs. map issue_for
      (unresolved_of MaterialOfSection m (cs_Name cs) (coll (cs_Materials cs))))"
    by (rule ext) (rule cs_issues_refs)
  have 2: "\<And>c n. bar_issues c n = (\<lambda>b. map issue_for
      (unresolved_of SectionOfBar c (bar_Name b) (nonempty_ref (bar_CrossSection b)))
      @ map issue_for (unresolved_of NodeOfBar n (bar_Name b) (coll (bar_Nodes b))))"
    by (rule ext) (simp add: bar_issues_def bar_section_issue_refs bar_node_issues_refs)
  have 3: "\<And>n. surf_issues n = (\<lambda>s. map issue_for
      (unresolved_of NodeOfSurface n (surf_Name s) (coll (surf_Nodes s))))"
    by (rule ext) (rule surf_issues_refs)
  have 4: "\<And>n. sup_issues n = (\<lambda>sp. map issue_for
      (unresolved_of NodeOfSupport n (sup_Name sp) (nonempty_ref (sup_Node sp))))"
    by (rule ext) (rule sup_issues_refs)
  have 5: "\<And>m. op_issues m = (\<lambda>opn. map issue_for
      (unresolved_of SurfaceOfOpening m (op_Name opn) [str_or_empty (op_Surface opn)]))"
    by (rule ext) (rule op_issues_refs)
  show ?thesis
    by (simp add: issues_of_def unresolved_refs_def Let_def map_concat comp_def 1 2 3 4 5)
qed

lemma refs_a: "unresolved_refs doc_a = [(SectionOfBar, Some ''Viga 1'', ''CS-missing'')]"
  by (simp add: unresolved_refs_def doc_a_def doc0_def bar_a_def coll_def ids_def
      unresolved_of_def nonempty_ref_def)

lemma refs_a_unnamed: "unresolved_refs doc_a_unnamed = [(SectionOfBar, None, ''CS-missing'')]"
  by (simp add: unresolved_refs_def doc_a_unnamed_def doc0_def bar_a_def coll_def ids_def
      unresolved_of_def nonempty_ref_def)

lemma text_unnamed:
  "issue_text (BarSection None) =
     ''Barra '' @ [CHR 0x27] @ ''None'' @ [CHR 0x27] @ '' '' @ arrow
       @ '' secci'' @ o_acute @ ''n inexistente''"
  by (simp add: quoted_def fmt_def)

lemma no_id_in_text:
  "\<not> sublist ''CS-missing'' (issue_text (BarSection None))"
  "\<not> sublist ''B1'' (issue_text (BarSection None))"
  "\<not> sublist ''CS-missing'' (issue_text (BarSection (Some ''Viga 1'')))"
  by (simp_all add: quoted_def fmt_def arrow_def o_acute_def sublist_Cons_right)

text \<open>
  Claim C6, as amended. Each unresolved reference that the Reference
  Validator finds yields exactly one issue, in document order. The issue
  carries the Name field of the source entity as \<open>.get('Name')\<close> reads it
  (absent stays absent and prints as None; the id is not used); the issues
  for Bar.Nodes and Surface.Nodes also carry the dangling node id, the other
  four kinds do not carry the dangling id. Scenario A yields exactly one
  issue, which names the bar.
\<close>

theorem one_issue_per_unresolved_reference:
  "issues_of d = map issue_for (unresolved_refs d)
   \<and> length (issues_of d) = length (unresolved_refs d)
   \<and> unresolved_refs doc_a = [(SectionOfBar, Some ''Viga 1'', ''CS-missing'')]
   \<and> issues_of doc_a = [BarSection (Some ''Viga 1'')]"
  by (simp add: issues_of_refs refs_a)

theorem one_issue_per_unresolved_reference_witness:
  "unresolved_refs doc_o = [(SurfaceOfOpening, Some ''Hueco 1'', [])]
   \<and> issues_of doc_o = [OpeningSurface (Some ''Hueco 1'')]
   \<and> length (issues_of doc_o) = 1"
proof -
  have "unresolved_refs doc_o = [(SurfaceOfOpening, Some ''Hueco 1'', [])]"
    by (simp add: unresolved_refs_def doc_o_def doc0_def coll_def ids_def unresolved_of_def
        str_or_empty_def)
  then show ?thesis
    using one_issue_per_unresolved_reference [of doc_o] by simp
qed

text \<open>
  The claim as stated fails on the bar of Scenario A without a Name: the
  only issue holds neither the bar's id \<open>B1\<close> nor the dangling id
  \<open>CS-missing\<close>, and its text contains neither.
\<close>

theorem issue_carries_ids_counterexample:
  "unresolved_refs doc_a_unnamed = [(SectionOfBar, None, ''CS-missing'')]
   \<and> issues_of doc_a_unnamed = [BarSection None]
   \<and> map issue_text (issues_of doc_a_unnamed) =
       [''Barra '' @ [CHR 0x27] @ ''None'' @ [CHR 0x27] @ '' '' @ arrow
          @ '' secci'' @ o_acute @ ''n inexistente'']
   \<and> \<not> sublist ''B1'' (issue_text (BarSection None))
   \<and> \<not> sublist ''CS-missing'' (issue_text (BarSection None))
   \<and> \<not> sublist ''CS-missing'' (issue_text (BarSection (Some ''Viga 1'')))"
proof -
  have 1: "issues_of doc_a_unnamed = [BarSection None]"
    by (simp add: issues_of_refs refs_a_unnamed)
  have 2: "map issue_text (issues_of doc_a_unnamed) =
       [''Barra '' @ [CHR 0x27] @ ''None'' @ [CHR 0x27] @ '' '' @ arrow
          @ '' secci'' @ o_acute @ ''n inexistente'']"
    by (simp only: 1 list.map text_unnamed)
  show ?thesis using refs_a_unnamed 1 2 no_id_in_text by blast
qed

subsection \<open>Conditional and unconditional checks\<close>

lemma bar_section_issue_skip:
  "bar_CrossSection b = None \<or> bar_CrossSection b = Some [] \<Longrightarrow> bar_section_issue cs_ids b = []"
  by (auto simp: bar_section_issue_def str_or_empty_def)

lemma bar_section_issue_emit:
  "bar_CrossSection b = Some s \<Longrightarrow> s \<noteq> [] \<Longrightarrow> Some s \<notin> cs_ids \<Longrightarrow>
   bar_section_issue cs_ids b = [BarSection (bar_Name b)]"
  by (simp add: bar_section_issue_def str_or_empty_def)

lemma bar_section_issue_cases:
  "bar_section_issue cs_ids b =
     (if \<exists>s. bar_CrossSection b = Some s \<and> s \<noteq> [] \<and> Some s \<notin> cs_ids
      then [BarSection (bar_Name b)] else [])"
  by (cases "bar_CrossSection b") (auto simp: bar_section_issue_def str_or_empty_def)

lemma filter_bs_concat_none:
  assumes "\<And>x. filter is_bar_section (f x) = []"
  shows "filter is_bar_section (concat (map f xs)) = []"
  by (induction xs) (simp_all add: assms)

lemma filter_bs_cs: "filter is_bar_section (cs_issues m cs) = []"
  by (simp add: cs_issues_refs unresolved_of_def filter_map comp_def)

lemma filter_bs_surf: "filter is_bar_section (surf_issues n s) = []"
  by (simp add: surf_issues_refs unresolved_of_def filter_map comp_def)

lemma filter_bs_sup: "filter is_bar_section (sup_issues n sp) = []"
  by (simp add: sup_issues_def Let_def)

lemma filter_bs_op: "filter is_bar_section (op_issues m opn) = []"
  by (simp add: op_issues_def)

lemma filter_bs_bar: "filter is_bar_section (bar_issues c n b) = bar_section_issue c b"
  by (simp add: bar_issues_def bar_node_issues_refs unresolved_of_def filter_map comp_def
      bar_section_issue_def Let_def)

lemma filter_bs_bars:
  "filter is_bar_section (concat (map (bar_issues c n) bs)) =
     map (\<lambda>b. BarSection (bar_Name b))
       (filter (\<lambda>b. \<exists>s. bar_CrossSection b = Some s \<and> s \<noteq> [] \<and> Some s \<notin> c) bs)"
  by (induction bs) (simp_all add: filter_bs_bar bar_section_issue_cases)

text \<open>
  Claim C8. A Bar's CrossSection reference is validated only when the field
  is a non-empty string: a bar whose CrossSection is absent or the empty
  string yields no issue for that field, and a bar whose CrossSection is a
  non-empty string outside the CrossSection id set yields one. Over a
  document, the section issues are exactly those of the bars of the second
  kind, in order.
\<close>

theorem bar_cross_section_checked_when_nonempty:
  "(bar_CrossSection b = None \<or> bar_CrossSection b = Some [] \<longrightarrow>
      bar_section_issue cs_ids b = [])
   \<and> (\<forall>s. bar_CrossSection b = Some s \<and> s \<noteq> [] \<and> Some s \<notin> cs_ids \<longrightarrow>
         bar_section_issue cs_ids b = [BarSection (bar_Name b)])
   \<and> filter is_bar_section (issues_of d) =
       map (\<lambda>b. BarSection (bar_Name b))
         (filter (\<lambda>b. \<exists>s. bar_CrossSection b = Some s \<and> s \<noteq> []
                        \<and> Some s \<notin> ids cs_Id (CrossSections d))
                 (coll (CurveMembers d)))"
proof -
  have "filter is_bar_section (issues_of d) =
       map (\<lambda>b. BarSection (bar_Name b))
         (filter (\<lambda>b. \<exists>s. bar_CrossSection b = Some s \<and> s \<noteq> []
                        \<and> Some s \<notin> ids cs_Id (CrossSections d))
                 (coll (CurveMembers d)))"
    by (simp add: issues_of_def Let_def filter_bs_bars
        filter_bs_concat_none [of "cs_issues m" for m, OF filter_bs_cs]
        filter_bs_concat_none [of "surf_issues m" for m, OF filter_bs_surf]
        filter_bs_concat_none [of "sup_issues m" for m, OF filter_bs_sup]
        filter_bs_concat_none [of "op_issues m" for m, OF filter_bs_op])
  then show ?thesis
    using bar_section_issue_skip [of b cs_ids] bar_section_issue_emit [of b _ cs_ids]
    by blast
qed

theorem bar_cross_section_checked_when_nonempty_witness:
  "bar_CrossSection bar_a = Some ''CS-missing'' \<and> ''CS-missing'' \<noteq> []
   \<and> Some ''CS-missing'' \<notin> ids cs_Id (CrossSections doc_a)
   \<and> bar_section_issue (ids cs_Id (CrossSections doc_a)) bar_a = [BarSection (Some ''Viga 1'')]
   \<and> bar_CrossSection (bar_a\<lparr>bar_CrossSection := Some []\<rparr>) = Some []
   \<and> bar_section_issue (ids cs_Id (CrossSections doc_a)) (bar_a\<lparr>bar_CrossSection := Some []\<rparr>) = []
   \<and> bar_CrossSection (bar_a\<lparr>bar_CrossSection := None\<rparr>) = None
   \<and> bar_section_issue (ids cs_Id (CrossSections doc_a)) (bar_a\<lparr>bar_CrossSection := None\<rparr>) = []
   \<and> filter is_bar_section (issues_of doc_a) = [BarSection (Some ''Viga 1'')]"
proof -
  let ?c = "ids cs_Id (CrossSections doc_a)"
  have c: "?c = {}" by (simp add: ids_def doc_a_def doc0_def coll_def)
  have n: "bar_Name bar_a = Some ''Viga 1''" "bar_CrossSection bar_a = Some ''CS-missing''"
    by (simp_all add: bar_a_def)
  have l: "coll (CurveMembers doc_a) = [bar_a]" by (simp add: doc_a_def doc0_def coll_def)
  show ?thesis
    using bar_cross_section_checked_when_nonempty [of bar_a ?c doc_a]
      bar_cross_section_checked_when_nonempty [of "bar_a\<lparr>bar_CrossSection := Some []\<rparr>" ?c doc_a]
      bar_cross_section_checked_when_nonempty [of "bar_a\<lparr>bar_CrossSection := None\<rparr>" ?c doc_a]
    by (simp add: c n l)
qed

lemma sup_issues_skip:
  "sup_Node sp = None \<or> sup_Node sp = Some [] \<Longrightarrow> sup_issues node_ids sp = []"
  by (auto simp: sup_issues_def str_or_empty_def)

lemma op_issues_empty_ref:
  assumes "Some [] \<notin> surf_ids" "op_Surface opn = None \<or> op_Surface opn = Some []"
  shows "op_issues surf_ids opn = [OpeningSurface (op_Name opn)]"
  using assms by (auto simp: op_issues_def str_or_empty_def)

lemma op_issues_in_issues:
  assumes "opn \<in> set (coll (SurfaceMemberOpenings d))"
    and "x \<in> set (op_issues (ids surf_Id (SurfaceMembers d)) opn)"
  shows "x \<in> set (issues_of d)"
  using assms by (auto simp: issues_of_def Let_def)

text \<open>
  Claim C10. The Surface reference of an opening is checked without a guard:
  in a document where no SurfaceMember has the empty string as Id, every
  SurfaceMemberOpening whose Surface field is absent or empty produces a
  dangling-reference issue. The guarded checks differ: a bar whose
  CrossSection, or a support whose Node, is absent or empty produces no
  issue for that field.
\<close>

theorem opening_surface_checked_unconditionally:
  assumes "\<forall>s\<in>set (coll (SurfaceMembers d)). surf_Id s \<noteq> Some []"
    and "opn \<in> set (coll (SurfaceMemberOpenings d))"
    and "op_Surface opn = None \<or> op_Surface opn = Some []"
  shows "op_issues (ids surf_Id (SurfaceMembers d)) opn = [OpeningSurface (op_Name opn)]
    \<and> OpeningSurface (op_Name opn) \<in> set (issues_of d)
    \<and> (bar_CrossSection b = None \<or> bar_CrossSection b = Some [] \<longrightarrow>
          bar_section_issue cs_ids b = [])
    \<and> (sup_Node sp = None \<or> sup_Node sp = Some [] \<longrightarrow> sup_issues node_ids sp = [])"
proof -
  have "Some [] \<notin> ids surf_Id (SurfaceMembers d)"
    using assms(1) by (auto simp: ids_def)
  then have e: "op_issues (ids surf_Id (SurfaceMembers d)) opn = [OpeningSurface (op_Name opn)]"
    using assms(3) by (rule op_issues_empty_ref)
  then have "OpeningSurface (op_Name opn) \<in> set (issues_of d)"
    using op_issues_in_issues [OF assms(2)] by simp
  then show ?thesis
    using e bar_section_issue_skip [of b cs_ids] sup_issues_skip [of sp node_ids] by blast
qed

theorem opening_surface_checked_unconditionally_witness:
  "map surf_Id (coll (SurfaceMembers doc_o)) = [Some ''S1'']
   \<and> coll (SurfaceMemberOpenings doc_o) = [\<lparr>op_Name = Some ''Hueco 1'', op_Surface = None\<rparr>]
   \<and> issues_of doc_o = [OpeningSurface (Some ''Hueco 1'')]"
proof -
  let ?o = "\<lparr>op_Name = Some ''Hueco 1'', op_Surface = None\<rparr>"
  have 1: "\<forall>s\<in>set (coll (SurfaceMembers doc_o)). surf_Id s \<noteq> Some []"
    by (simp add: doc_o_def doc0_def coll_def)
  have 2: "?o \<in> set (coll (SurfaceMemberOpenings doc_o))"
    by (simp add: doc_o_def doc0_def coll_def)
  have 3: "op_Surface ?o = None \<or> op_Surface ?o = Some []" by simp
  have 4: "issues_of doc_o = op_issues (ids surf_Id (SurfaceMembers doc_o)) ?o"
    by (simp add: issues_of_def Let_def doc_o_def doc0_def coll_def surf_issues_def)
  have 5: "map surf_Id (coll (SurfaceMembers doc_o)) = [Some ''S1'']"
    "coll (SurfaceMemberOpenings doc_o) = [?o]"
    by (simp_all add: doc_o_def doc0_def coll_def)
  show ?thesis
    using 5 opening_surface_checked_unconditionally [OF 1 2 3] by (simp add: 4)
qed

subsection \<open>Orphans\<close>

lemma r1d_o_char:
  "r1d_o d = {m. (\<exists>r\<in>set (coll (Results1D d)). Member r = m)
                \<and> (\<forall>b\<in>set (coll (CurveMembers d)). bar_Id b \<noteq> m)}"
  by (simp add: r1d_o_def ids_def set_eq_iff image_iff) metis

lemma mr_o_char:
  "mr_o d = {m. (\<exists>r\<in>set (coll (MeshResults d)). Member r = m)
               \<and> (\<forall>s\<in>set (coll (SurfaceMembers d)). surf_Id s \<noteq> m)}"
  by (simp add: mr_o_def ids_def set_eq_iff image_iff) metis

lemma finite_orphans: "finite (r1d_o d)" "finite (mr_o d)"
  by (simp_all add: r1d_o_def mr_o_def)

lemma orphans1d_warned:
  "Orphans1D n \<in> set (warns_of d) \<longleftrightarrow> r1d_o d \<noteq> {} \<and> n = card (r1d_o d)"
  by (auto simp: warns_of_def Let_def)

lemma orphans_mesh_warned:
  "OrphansMesh n \<in> set (warns_of d) \<longleftrightarrow> mr_o d \<noteq> {} \<and> n = card (mr_o d)"
  by (auto simp: warns_of_def Let_def)

lemma issues_ignore_results:
  "issues_of (d\<lparr>Results1D := rs, MeshResults := ms\<rparr>) = issues_of d"
  by (simp add: issues_of_def)

text \<open>
  Claim C9. The Orphan Detector computes exactly the set of distinct owner
  ids that appear in a result collection and are the id of no entity of the
  matching geometry collection (bars for Results1D, surfaces for
  MeshResults); when the set is not empty one warning reports it, with its
  cardinality. A Result1D record whose Member is the id of no Bar is in the
  set and is warned about, and the issues of the Reference Validator do not
  depend on the result collections at all.
\<close>

theorem orphan_detector:
  "r1d_o d = {m. (\<exists>r\<in>set (coll (Results1D d)). Member r = m)
                \<and> (\<forall>b\<in>set (coll (CurveMembers d)). bar_Id b \<noteq> m)}
   \<and> mr_o d = {m. (\<exists>r\<in>set (coll (MeshResults d)). Member r = m)
                 \<and> (\<forall>s\<in>set (coll (SurfaceMembers d)). surf_Id s \<noteq> m)}
   \<and> (Orphans1D n \<in> set (warns_of d) \<longleftrightarrow> r1d_o d \<noteq> {} \<and> n = card (r1d_o d))
   \<and> (OrphansMesh n \<in> set (warns_of d) \<longleftrightarrow> mr_o d \<noteq> {} \<and> n = card (mr_o d))
   \<and> (\<forall>r\<in>set (coll (Results1D d)).
         (\<forall>b\<in>set (coll (CurveMembers d)). bar_Id b \<noteq> Member r) \<longrightarrow>
         Member r \<in> r1d_o d \<and> 0 < card (r1d_o d)
         \<and> Orphans1D (card (r1d_o d)) \<in> set (warns_of d))
   \<and> issues_of (d\<lparr>Results1D := rs, MeshResults := ms\<rparr>) = issues_of d"
proof -
  have "\<forall>r\<in>set (coll (Results1D d)).
         (\<forall>b\<in>set (coll (CurveMembers d)). bar_Id b \<noteq> Member r) \<longrightarrow>
         Member r \<in> r1d_o d \<and> 0 < card (r1d_o d)
         \<and> Orphans1D (card (r1d_o d)) \<in> set (warns_of d)"
  proof (intro ballI impI)
    fix r assume r: "r \<in> set (coll (Results1D d))"
      and b: "\<forall>b\<in>set (coll (CurveMembers d)). bar_Id b \<noteq> Member r"
    have m: "Member r \<in> r1d_o d" using r b by (auto simp: r1d_o_char)
    then have ne: "r1d_o d \<noteq> {}" by auto
    then have "0 < card (r1d_o d)" using finite_orphans(1) by (simp add: card_gt_0_iff)
    then show "Member r \<in> r1d_o d \<and> 0 < card (r1d_o d)
         \<and> Orphans1D (card (r1d_o d)) \<in> set (warns_of d)"
      using m ne by (simp add: orphans1d_warned)
  qed
  then show ?thesis
    using r1d_o_char [of d] mr_o_char [of d] orphans1d_warned [of n d]
      orphans_mesh_warned [of n d] issues_ignore_results [where d = d and rs = rs and ms = ms]
    by blast
qed

lemma ratio_e: "nz_ratio_1d rec_e = 1"
  by (simp add: nz_ratio_1d_eq nz_count_def COMPS_1D_def comp_nz_def get_series_def rec_e_def)

theorem orphan_detector_witness:
  "coll (Results1D doc_e) = [rec_e]
   \<and> Member rec_e = Some ''B9''
   \<and> map bar_Id (coll (CurveMembers doc_e)) = [Some ''B1'']
   \<and> r1d_o doc_e = {Some ''B9''}
   \<and> warns_of doc_e = [Orphans1D 1]
   \<and> issues_of doc_e = []"
proof -
  have 1: "coll (Results1D doc_e) = [rec_e]" by (simp add: doc_e_def doc0_def coll_def)
  have 2: "coll (CurveMembers doc_e) = [bar_a\<lparr>bar_CrossSection := None\<rparr>]"
    by (simp add: doc_e_def doc0_def coll_def)
  have 3: "Member rec_e = Some ''B9''" by (simp add: rec_e_def)
  have 4: "bar_Id (bar_a\<lparr>bar_CrossSection := None\<rparr>) = Some ''B1''" by (simp add: bar_a_def)
  have 5: "r1d_o doc_e = {Some ''B9''}"
    using orphan_detector [where d = doc_e] by (auto simp: 1 2 3 4)
  have 6: "mr_o doc_e = {}" by (simp add: mr_o_def doc_e_def doc0_def coll_def)
  have 7: "empty_keys doc_e = []"
    by (simp add: empty_keys_def list_items_def present_def doc_e_def doc0_def)
  have 8: "count_empty nz_ratio_1d [rec_e] = 0" "count_empty nz_ratio_mesh [] = 0"
    by (simp_all add: count_empty_def ratio_e)
  have 9: "coll (MeshResults doc_e) = []" by (simp add: doc_e_def doc0_def coll_def)
  have 10: "warns_of doc_e = [Orphans1D 1]"
    by (simp add: warns_of_def Let_def 1 5 6 7 8 9)
  have 11: "issues_of doc_e = []"
    by (simp add: issues_of_refs unresolved_refs_def doc_e_def doc0_def coll_def bar_a_def
        unresolved_of_def nonempty_ref_def)
  show ?thesis using 5 10 11 by (simp add: 1 2 3 4)
qed

subsection \<open>The clean report\<close>

lemma coll_None: "coll None = []"
  by (simp add: coll_def)

lemma count_empty_zero:
  "count_empty ratio rs = 0 \<longleftrightarrow> (\<forall>r\<in>set rs. ratio r \<noteq> 0)"
  by (simp add: count_empty_def sum_ones filter_empty_conv)

lemma r1d_o_empty:
  "r1d_o d = {} \<longleftrightarrow>
     (\<forall>r\<in>set (coll (Results1D d)). \<exists>b\<in>set (coll (CurveMembers d)). bar_Id b = Member r)"
  unfolding r1d_o_char by blast

lemma mr_o_empty:
  "mr_o d = {} \<longleftrightarrow>
     (\<forall>r\<in>set (coll (MeshResults d)). \<exists>s\<in>set (coll (SurfaceMembers d)). surf_Id s = Member r)"
  unfolding mr_o_char by blast

lemma present_nonzero:
  "(\<forall>kv\<in>set (present k c). 0 < snd kv) \<longleftrightarrow> c \<noteq> Some []"
  by (cases c) (simp_all add: present_def)

lemma empty_keys_none:
  "empty_keys d = [] \<longleftrightarrow>
     Materials d \<noteq> Some [] \<and> CrossSections d \<noteq> Some [] \<and> PointConnections d \<noteq> Some []
     \<and> CurveMembers d \<noteq> Some [] \<and> SurfaceMembers d \<noteq> Some [] \<and> PointSupports d \<noteq> Some []
     \<and> SurfaceMemberOpenings d \<noteq> Some [] \<and> Results1D d \<noteq> Some [] \<and> MeshResults d \<noteq> Some []
     \<and> (\<forall>kv\<in>set (OtherLists d). snd kv \<noteq> 0)"
  by (simp add: empty_keys_def filter_empty_conv list_items_def ball_Un present_nonzero)

lemma warns_of_none:
  "warns_of d = [] \<longleftrightarrow>
     r1d_o d = {} \<and> mr_o d = {}
     \<and> count_empty nz_ratio_1d (coll (Results1D d)) = 0
     \<and> count_empty nz_ratio_mesh (coll (MeshResults d)) = 0
     \<and> empty_keys d = []"
  by (simp add: warns_of_def Let_def)

text \<open>
  Claim C7, as amended. The audit report has no error and no warning exactly
  when the document has no unresolved reference among the six relations that
  the Reference Validator checks, every result owner is the id of a bar
  (Results1D) or of a surface (MeshResults), no result record has ratio 0,
  and no top-level key is bound to an empty list.
\<close>

theorem clean_report_iff:
  "clean (render_validation d) \<longleftrightarrow>
     unresolved_refs d = []
     \<and> (\<forall>r\<in>set (coll (Results1D d)). \<exists>b\<in>set (coll (CurveMembers d)). bar_Id b = Member r)
     \<and> (\<forall>r\<in>set (coll (MeshResults d)). \<exists>s\<in>set (coll (SurfaceMembers d)). surf_Id s = Member r)
     \<and> (\<forall>r\<in>set (coll (Results1D d)). nz_ratio_1d r \<noteq> 0)
     \<and> (\<forall>r\<in>set (coll (MeshResults d)). nz_ratio_mesh r \<noteq> 0)
     \<and> Materials d \<noteq> Some [] \<and> CrossSections d \<noteq> Some [] \<and> PointConnections d \<noteq> Some []
     \<and> CurveMembers d \<noteq> Some [] \<and> SurfaceMembers d \<noteq> Some [] \<and> PointSupports d \<noteq> Some []
     \<and> SurfaceMemberOpenings d \<noteq> Some [] \<and> Results1D d \<noteq> Some [] \<and> MeshResults d \<noteq> Some []
     \<and> (\<forall>kv\<in>set (OtherLists d). snd kv \<noteq> 0)"
proof -
  have "clean (render_validation d) \<longleftrightarrow> unresolved_refs d = [] \<and> warns_of d = []"
    by (simp add: clean_def render_validation_def issues_of_refs)
  then show ?thesis
    unfolding warns_of_none count_empty_zero r1d_o_empty mr_o_empty empty_keys_none
    by blast
qed

text \<open>
  The claim as stated fails: the document with one surface that names the
  material \<open>M-missing\<close>, and no material, has a dangling reference, and its
  report is clean.
\<close>

theorem clean_report_counterexample:
  "clean (render_validation doc_m)
   \<and> unchecked_refs doc_m = [(Some ''Losa 1'', ''M-missing'')]
   \<and> \<not> no_dangling_references doc_m"
proof -
  have u: "unchecked_refs doc_m = [(Some ''Losa 1'', ''M-missing'')]"
    by (simp add: unchecked_refs_def doc_m_def doc0_def coll_def ids_def)
  have i: "issues_of doc_m = []"
    by (simp add: issues_of_refs unresolved_refs_def doc_m_def doc0_def coll_def
        unresolved_of_def)
  have w: "warns_of doc_m = []"
    by (simp add: warns_of_def Let_def r1d_o_def mr_o_def doc_m_def doc0_def coll_def
        count_empty_def empty_keys_def list_items_def present_def)
  show ?thesis using u i w
    by (simp add: clean_def render_validation_def no_dangling_references_def)
qed

theorem clean_report_iff_witness:
  "unresolved_refs doc_ok = []
   \<and> coll (Results1D doc_ok) = [rec_e]
   \<and> Member rec_e = Some ''B9''
   \<and> map bar_Id (coll (CurveMembers doc_ok)) = [Some ''B9'']
   \<and> nz_ratio_1d rec_e = 1
   \<and> clean (render_validation doc_ok)
   \<and> \<not> clean (render_validation doc_e)"
proof -
  have 1: "coll (Results1D doc_ok) = [rec_e]" "coll (MeshResults doc_ok) = []"
    "coll (CurveMembers doc_ok) = [bar_a\<lparr>bar_Id := Some ''B9'', bar_CrossSection := None\<rparr>]"
    by (simp_all add: doc_ok_def doc0_def coll_def)
  have 2: "unresolved_refs doc_ok = []"
    by (simp add: unresolved_refs_def doc_ok_def doc0_def coll_def bar_a_def
        unresolved_of_def nonempty_ref_def)
  have 3: "Member rec_e = Some ''B9''" by (simp add: rec_e_def)
  have 4: "Materials doc_ok = None" "CrossSections doc_ok = None" "PointConnections doc_ok = None"
    "CurveMembers doc_ok \<noteq> Some []" "SurfaceMembers doc_ok = None" "PointSupports doc_ok = None"
    "SurfaceMemberOpenings doc_ok = None" "Results1D doc_ok \<noteq> Some []"
    "MeshResults doc_ok = None" "OtherLists doc_ok = []"
    by (simp_all add: doc_ok_def doc0_def)
  have 5: "clean (render_validation doc_ok)"
    using clean_report_iff [of doc_ok] by (simp add: 1 2 3 4 ratio_e coll_None)
  have 6: "coll (Results1D doc_e) = [rec_e]"
    "coll (CurveMembers doc_e) = [bar_a\<lparr>bar_CrossSection := None\<rparr>]"
    by (simp_all add: doc_e_def doc0_def coll_def)
  have 7: "bar_Id (bar_a\<lparr>bar_CrossSection := None\<rparr>) = Some ''B1''" by (simp add: bar_a_def)
  have 8: "\<not> clean (render_validation doc_e)"
    using clean_report_iff [of doc_e] by (simp add: 6 7 3)
  have 9: "map bar_Id (coll (CurveMembers doc_ok)) = [Some ''B9'']"
    by (simp add: 1)
  show ?thesis using 2 5 8 9 by (simp add: 1 3 ratio_e)
qed

end
